theory Spec2Isabelle
  imports Main "HOL-Library.Finite_Map"
begin

section \<open>Python values and the builtins the bot relies on\<close>

text \<open>
  The values that \<^verbatim>\<open>response.json()\<close> hands to the bot: \<^verbatim>\<open>None\<close>, booleans,
  (unbounded) integers, strings, lists and dictionaries with string keys. Floating-point
  numbers are outside this embedding. A dictionary is a finite map, so that two
  dictionaries with the same items are the same value whatever their insertion order.
\<close>

datatype pyval =
    PNone
  | PBool bool
  | PInt int
  | PStr string
  | PList "pyval list"
  | PDict "(string, pyval) fmap"

text \<open>
  The exceptions that occur. \<open>AttributeError\<close> and \<open>TypeError\<close> are raised by the
  builtins, \<open>ValueError\<close> carries the message the source (or the builtin) gives it,
  \<open>InvalidLiteral s\<close> is the \<open>ValueError\<close> that \<^verbatim>\<open>int(s)\<close> raises (for a text that
  is no integer literal, or that has more digits than the interpreter converts),
  \<open>Forbidden\<close> is
  \<^verbatim>\<open>discord.Forbidden\<close>, and \<open>OtherException\<close> is any other exception thrown by a
  library call (network fault, HTTP error of the chat platform, image decoding...).
\<close>

datatype py_exn =
    AttributeError
  | TypeError
  | ValueError string
  | InvalidLiteral string
  | Forbidden
  | OtherException string

definition bind_exn :: "py_exn + 'a \<Rightarrow> ('a \<Rightarrow> py_exn + 'b) \<Rightarrow> py_exn + 'b" where
  "bind_exn r f = (case r of Inl e \<Rightarrow> Inl e | Inr v \<Rightarrow> f v)"

definition apostrophe :: char where
  "apostrophe = CHR 0x27"

subsection \<open>Decimal output\<close>

definition digit_char :: "nat \<Rightarrow> char" where
  "digit_char d = ''0123456789'' ! d"

fun dec_nat :: "nat \<Rightarrow> string" where
  "dec_nat n = (if n < 10 then [digit_char n] else dec_nat (n div 10) @ [digit_char (n mod 10)])"

declare dec_nat.simps [simp del]

definition str_int :: "int \<Rightarrow> string" where
  \<comment> \<open>\<^verbatim>\<open>str(i)\<close> for an integer.\<close>
  "str_int i = (if i < 0 then CHR ''-'' # dec_nat (nat (- i)) else dec_nat (nat i))"

fun commas_rev :: "string \<Rightarrow> string" where
  \<comment> \<open>on the digits in reverse: a comma after every third digit that has a successor.\<close>
  "commas_rev (a # b # c # d # ds) = a # b # c # CHR '','' # commas_rev (d # ds)"
| "commas_rev ds = ds"

definition group_thousands :: "string \<Rightarrow> string" where
  "group_thousands ds = rev (commas_rev (rev ds))"

definition format_comma_int :: "int \<Rightarrow> string" where
  \<comment> \<open>\<^verbatim>\<open>format(i, ',')\<close> for an integer: the sign, then the digits grouped in threes.\<close>
  "format_comma_int i =
     (if i < 0 then CHR ''-'' # group_thousands (dec_nat (nat (- i)))
      else group_thousands (dec_nat (nat i)))"

subsection \<open>\<^verbatim>\<open>str\<close>, \<^verbatim>\<open>format\<close>, truth value, equality, \<^verbatim>\<open>dict.get\<close>\<close>

text \<open>
  \<^verbatim>\<open>str(v)\<close>, as an f-string field without a format specification computes it. For a
  list or a dictionary Python prints its \<^verbatim>\<open>repr\<close>; that printer is the parameter
  \<open>repr\<close> of everything that formats a value.
\<close>

fun py_str :: "(pyval \<Rightarrow> string) \<Rightarrow> pyval \<Rightarrow> string" where
  "py_str repr PNone = ''None''"
| "py_str repr (PBool b) = (if b then ''True'' else ''False'')"
| "py_str repr (PInt i) = str_int i"
| "py_str repr (PStr s) = s"
| "py_str repr (PList xs) = repr (PList xs)"
| "py_str repr (PDict m) = repr (PDict m)"

text \<open>
  \<^verbatim>\<open>format(v, ',')\<close>, the field \<^verbatim>\<open>{rank_score:,}\<close>: integers (and booleans, which are
  integers) are grouped; a string raises \<open>ValueError\<close>; \<^verbatim>\<open>None\<close>, lists and
  dictionaries raise \<open>TypeError\<close>.
\<close>

fun format_comma :: "pyval \<Rightarrow> py_exn + string" where
  "format_comma (PInt i) = Inr (format_comma_int i)"
| "format_comma (PBool b) = Inr (format_comma_int (if b then 1 else 0))"
| "format_comma (PStr s) =
     Inl (ValueError (''Cannot specify '' @ [apostrophe] @ '','' @ [apostrophe] @ '' with ''
                      @ [apostrophe] @ ''s'' @ [apostrophe] @ ''.''))"
| "format_comma PNone = Inl TypeError"
| "format_comma (PList xs) = Inl TypeError"
| "format_comma (PDict m) = Inl TypeError"

fun py_truthy :: "pyval \<Rightarrow> bool" where
  "py_truthy PNone = False"
| "py_truthy (PBool b) = b"
| "py_truthy (PInt i) = (i \<noteq> 0)"
| "py_truthy (PStr s) = (s \<noteq> [])"
| "py_truthy (PList xs) = (xs \<noteq> [])"
| "py_truthy (PDict m) = (m \<noteq> fmempty)"

text \<open>
  Python's \<^verbatim>\<open>==\<close> on these values is structural, except that \<^verbatim>\<open>True == 1\<close> and
  \<^verbatim>\<open>False == 0\<close>, also inside containers. \<open>py_key\<close> maps a value to the representative
  of its equality class.
\<close>

primrec py_key :: "pyval \<Rightarrow> pyval" where
  "py_key PNone = PNone"
| "py_key (PBool b) = PInt (if b then 1 else 0)"
| "py_key (PInt i) = PInt i"
| "py_key (PStr s) = PStr s"
| "py_key (PList xs) = PList (map py_key xs)"
| "py_key (PDict m) = PDict (fmmap py_key m)"

definition py_eq :: "pyval \<Rightarrow> pyval \<Rightarrow> bool" where
  "py_eq a b = (py_key a = py_key b)"

text \<open>\<^verbatim>\<open>v.get(key, default)\<close>: only a dictionary has the method.\<close>

fun py_get :: "pyval \<Rightarrow> string \<Rightarrow> pyval \<Rightarrow> py_exn + pyval" where
  "py_get (PDict m) key dflt = Inr (case fmlookup m key of None \<Rightarrow> dflt | Some v \<Rightarrow> v)"
| "py_get v key dflt = Inl AttributeError"

section \<open>The stats snapshot and the status text\<close>

record snapshot =
  player_name :: pyval
  rank_score :: pyval
  rank_name :: pyval
  rank_div :: pyval
  rank_img_url :: pyval

text \<open>Lines 73 to 80 of \<^verbatim>\<open>update_stats_task\<close>, in the order the source evaluates them.\<close>

definition parse_data :: "pyval \<Rightarrow> py_exn + snapshot" where
  "parse_data data =
     bind_exn (py_get data ''global'' (PDict fmempty)) (\<lambda>global_info.
     bind_exn (py_get global_info ''rank'' (PDict fmempty)) (\<lambda>rank_info.
     bind_exn (py_get global_info ''name'' (PStr ''Unknown'')) (\<lambda>name.
     bind_exn (py_get rank_info ''rankScore'' (PInt 0)) (\<lambda>score.
     bind_exn (py_get rank_info ''rankName'' (PStr ''Rookie'')) (\<lambda>rname.
     bind_exn (py_get rank_info ''rankDiv'' (PInt 0)) (\<lambda>rdiv.
     bind_exn (py_get rank_info ''rankImg'' PNone) (\<lambda>img.
       Inr \<lparr>player_name = name, rank_score = score, rank_name = rname,
            rank_div = rdiv, rank_img_url = img\<rparr>)))))))"

text \<open>Line 84: \<^verbatim>\<open>f"{rank_name} {rank_div} - {rank_score:,} RP"\<close>.\<close>

definition status_text :: "(pyval \<Rightarrow> string) \<Rightarrow> snapshot \<Rightarrow> py_exn + string" where
  "status_text repr s =
     bind_exn (format_comma (rank_score s)) (\<lambda>score.
       Inr (py_str repr (rank_name s) @ '' '' @ py_str repr (rank_div s) @ '' - '' @ score @ '' RP''))"

section \<open>The outside world of one bot\<close>

text \<open>
  Everything the bot does to the outside, in the order it does it: log records, HTTP
  requests through the shared session, and the three calls to the chat platform. A log
  record has a level, the text, and the exception that the source interpolates at the end
  of the message (\<^verbatim>\<open>{e}\<close>), when there is one. A call that raises is recorded too: it
  was issued.
\<close>

datatype log_level = Info | Warning | Error | Fatal

datatype event =
    Log log_level string "py_exn option"
  | HttpGet pyval
  | ChangePresence string
  | EditNick string pyval
  | EditAvatar string
  | CreateSharedSession
  | RunBot string

record player_config =
  name :: string
  discord_token :: string
  player_uid :: string
  startup_delay :: int

record bot =
  config :: player_config
  api_url :: string
  last_known_name :: pyval
  last_known_score :: "string option"

text \<open>\<^verbatim>\<open>ApexPlayerBot.__init__\<close>; \<open>key\<close> is the module's \<^verbatim>\<open>APEX_API_KEY\<close>.\<close>

definition new_bot :: "string \<Rightarrow> player_config \<Rightarrow> bot" where
  "new_bot key cfg =
     \<lparr>config = cfg,
      api_url = ''https://api.mozambiquehe.re/bridge?auth='' @ key @ ''&player=''
                @ player_uid cfg @ ''&platform=PC'',
      last_known_name = PNone,
      last_known_score = None\<rparr>"

text \<open>
  What the outside answers during one cycle. \<open>stats_get\<close> is the outcome of the request
  to the stats API: an exception, or a response with its status, the outcome of
  \<^verbatim>\<open>response.json()\<close> and the outcome of \<^verbatim>\<open>response.text()\<close>.
  \<open>presence_raises\<close> is the exception of \<^verbatim>\<open>change_presence\<close>, if it raises. Each joined
  server has a name, the bot's own member there (\<^verbatim>\<open>guild.me\<close>, which may be
  \<^verbatim>\<open>None\<close>), its nickname and the exception of \<^verbatim>\<open>guild.me.edit\<close>, if it raises.
  \<open>badge_get\<close> is the outcome of the request for the badge image (an exception or the
  status), \<open>badge_png\<close> the outcome of reading the body and re-encoding it as an RGBA PNG
  with Pillow, \<open>avatar_raises\<close> the exception of \<^verbatim>\<open>user.edit\<close>, if it raises.
\<close>

record response =
  status :: int
  json_body :: "py_exn + pyval"
  text_body :: "py_exn + string"

record member =
  nick :: "string option"
  edit_raises :: "py_exn option"

record guild =
  guild_name :: string
  me :: "member option"

record world =
  stats_get :: "py_exn + response"
  presence_raises :: "py_exn option"
  guilds :: "guild list"
  badge_get :: "py_exn + int"
  badge_png :: "py_exn + string"
  avatar_raises :: "py_exn option"

definition log_tag :: "bot \<Rightarrow> string" where
  \<comment> \<open>the prefix \<^verbatim>\<open>[{self.config.name}] \<close> of every log message of a bot.\<close>
  "log_tag b = ''['' @ name (config b) @ ''] ''"

definition nick_value :: "string option \<Rightarrow> pyval" where
  "nick_value n = (case n of None \<Rightarrow> PNone | Some s \<Rightarrow> PStr s)"

section \<open>The nickname pass\<close>

text \<open>
  The body of the loop of \<^verbatim>\<open>update_all_nicknames\<close> for one server: the \<^verbatim>\<open>try\<close>
  block with its two handlers. Reading \<^verbatim>\<open>guild.me.nick\<close> when \<^verbatim>\<open>guild.me\<close> is
  \<^verbatim>\<open>None\<close> raises \<open>AttributeError\<close>, which the second handler catches.
\<close>

definition nickname_in_guild :: "bot \<Rightarrow> pyval \<Rightarrow> guild \<Rightarrow> event list" where
  "nickname_in_guild b new_nick g =
     (case me g of
        None \<Rightarrow>
          [Log Error (log_tag b @ ''Failed to change nickname in '' @ guild_name g @ '': '')
                     (Some AttributeError)]
      | Some m \<Rightarrow>
          if \<not> py_eq (nick_value (nick m)) new_nick then
            EditNick (guild_name g) new_nick #
            (case edit_raises m of
               None \<Rightarrow> []
             | Some Forbidden \<Rightarrow>
                 [Log Warning (log_tag b @ ''Missing permissions to change nickname in guild: ''
                               @ guild_name g) None]
             | Some e \<Rightarrow>
                 [Log Error (log_tag b @ ''Failed to change nickname in '' @ guild_name g @ '': '')
                            (Some e)])
          else [])"

fun nickname_loop :: "bot \<Rightarrow> pyval \<Rightarrow> guild list \<Rightarrow> event list" where
  "nickname_loop b new_nick [] = []"
| "nickname_loop b new_nick (g # gs) = nickname_in_guild b new_nick g @ nickname_loop b new_nick gs"

definition update_all_nicknames :: "(pyval \<Rightarrow> string) \<Rightarrow> world \<Rightarrow> bot \<Rightarrow> pyval \<Rightarrow> event list" where
  "update_all_nicknames repr w b new_nick =
     Log Info (log_tag b @ ''Updating nickname to '' @ [apostrophe] @ py_str repr new_nick
               @ [apostrophe] @ ''...'') None
     # nickname_loop b new_nick (guilds w)"

section \<open>The avatar update\<close>

definition update_avatar :: "world \<Rightarrow> bot \<Rightarrow> pyval \<Rightarrow> event list" where
  "update_avatar w b url =
     HttpGet url #
     (case badge_get w of
        Inl e \<Rightarrow> [Log Error (log_tag b @ ''Failed to update avatar: '') (Some e)]
      | Inr st \<Rightarrow>
          if st = 200 then
            (case badge_png w of
               Inl e \<Rightarrow> [Log Error (log_tag b @ ''Failed to update avatar: '') (Some e)]
             | Inr png \<Rightarrow>
                 EditAvatar png #
                 (case avatar_raises w of
                    Some e \<Rightarrow> [Log Error (log_tag b @ ''Failed to update avatar: '') (Some e)]
                  | None \<Rightarrow> [Log Info (log_tag b @ ''Profile Image updated to Ranked Badge.'') None]))
          else [Log Error (log_tag b @ ''Failed to download image: '' @ str_int st) None])"

section \<open>One poll cycle\<close>

text \<open>
  Lines 84 to 103, after the snapshot has been read and the status text formatted: the
  events, the bot afterwards, and the exception that leaves the block, if any. Only
  \<^verbatim>\<open>change_presence\<close> can raise here: the nickname pass and the avatar update catch
  every exception themselves.
\<close>

definition apply_snapshot ::
  "(pyval \<Rightarrow> string) \<Rightarrow> world \<Rightarrow> bot \<Rightarrow> snapshot \<Rightarrow> string \<Rightarrow> event list \<times> bot \<times> py_exn option" where
  "apply_snapshot repr w b s text =
     (let score_changed = (last_known_score b \<noteq> Some text) in
      if score_changed \<and> presence_raises w \<noteq> None then
        ([ChangePresence text], b, presence_raises w)
      else
        let (ev1, b1) =
              (if score_changed then
                 ([ChangePresence text, Log Info (log_tag b @ ''Status Updated: '' @ text) None],
                  b\<lparr>last_known_score := Some text\<rparr>)
               else ([], b));
            (ev2, b2) =
              (if \<not> py_eq (player_name s) (last_known_name b1) then
                 (update_all_nicknames repr w b1 (player_name s),
                  b1\<lparr>last_known_name := player_name s\<rparr>)
               else ([], b1));
            ev3 =
              (if py_truthy (rank_img_url s) \<and> score_changed then
                 Log Info (log_tag b2
                           @ ''Score changed; updating avatar to current rank badge...'') None
                 # update_avatar w b2 (rank_img_url s)
               else [])
        in (ev1 @ ev2 @ ev3, b2, None))"

text \<open>The \<^verbatim>\<open>try\<close> block of \<^verbatim>\<open>update_stats_task\<close>, lines 67 to 109.\<close>

definition stats_try ::
  "(pyval \<Rightarrow> string) \<Rightarrow> world \<Rightarrow> bot \<Rightarrow> event list \<times> bot \<times> py_exn option" where
  "stats_try repr w b =
     (case stats_get w of
        Inl e \<Rightarrow> ([HttpGet (PStr (api_url b))], b, Some e)
      | Inr r \<Rightarrow>
          if status r = 200 then
            (case bind_exn (json_body r) parse_data of
               Inl e \<Rightarrow> ([HttpGet (PStr (api_url b))], b, Some e)
             | Inr s \<Rightarrow>
                 (case status_text repr s of
                    Inl e \<Rightarrow> ([HttpGet (PStr (api_url b))], b, Some e)
                  | Inr text \<Rightarrow>
                      (case apply_snapshot repr w b s text of
                         (evs, b', x) \<Rightarrow> (HttpGet (PStr (api_url b)) # evs, b', x))))
          else if status r = 429 then
            ([HttpGet (PStr (api_url b)),
              Log Warning (log_tag b @ ''Rate Limit Hit (429). Waiting...'') None], b, None)
          else
            (case text_body r of
               Inl e \<Rightarrow> ([HttpGet (PStr (api_url b))], b, Some e)
             | Inr error_text \<Rightarrow>
                 ([HttpGet (PStr (api_url b)),
                   Log Error (log_tag b @ ''API Failed: '' @ str_int (status r) @ '' - ''
                              @ error_text) None], b, None)))"

text \<open>
  \<^verbatim>\<open>update_stats_task\<close>: the block, and the handler of line 111 that logs whatever
  exception leaves it. The task itself never raises.
\<close>

definition update_stats_task :: "(pyval \<Rightarrow> string) \<Rightarrow> world \<Rightarrow> bot \<Rightarrow> event list \<times> bot" where
  "update_stats_task repr w b =
     (case stats_try repr w b of
        (evs, b', None) \<Rightarrow> (evs, b')
      | (evs, b', Some e) \<Rightarrow> (evs @ [Log Error (log_tag b @ ''Error in main loop: '') (Some e)], b'))"

section \<open>The configuration loader\<close>

subsection \<open>String builtins\<close>

definition startswith :: "string \<Rightarrow> string \<Rightarrow> bool" where
  "startswith s p = (take (length p) s = p)"

text \<open>
  \<^verbatim>\<open>s.replace(old, new)\<close>: every occurrence of \<open>old\<close>, found from the left and not
  overlapping, becomes \<open>new\<close>; with an empty \<open>old\<close>, \<open>new\<close> is put before every
  character and at the end.
\<close>

function str_replace :: "string \<Rightarrow> string \<Rightarrow> string \<Rightarrow> string" where
  "str_replace [] old new = (if old = [] then new else [])"
| "str_replace (c # cs) old new =
     (if old = [] then new @ c # str_replace cs old new
      else if startswith (c # cs) old then new @ str_replace (drop (length old) (c # cs)) old new
      else c # str_replace cs old new)"
  by pat_completeness auto
termination
  by (relation "measure (\<lambda>(s, old, new). length s)") auto

text \<open>\<^verbatim>\<open>s.upper()\<close> on ASCII text, which the names of environment variables are.\<close>

definition upper_char :: "char \<Rightarrow> char" where
  "upper_char c =
     (case map_of (zip ''abcdefghijklmnopqrstuvwxyz'' ''ABCDEFGHIJKLMNOPQRSTUVWXYZ'') c of
        None \<Rightarrow> c
      | Some u \<Rightarrow> u)"

definition upper :: "string \<Rightarrow> string" where
  "upper s = map upper_char s"

text \<open>
  \<^verbatim>\<open>int(s)\<close> for a string, in base ten: white space around the literal is dropped, a sign
  may come first, then digits, where one underscore may stand between two digits.
  Anything else raises \<open>ValueError\<close>. The white space of an ASCII text is the space and
  the characters 9 to 13 (tab, line feed, vertical tab, form feed, carriage return); the
  separators 28 to 31 are not dropped. A literal with more digits than
  \<open>int_max_str_digits\<close>, the default limit of the interpreter for the conversion of a
  string, raises \<open>ValueError\<close> too; leading zeros count, underscores do not. (Digits and
  white space outside ASCII are not modelled.)
\<close>

definition is_space :: "char \<Rightarrow> bool" where
  "is_space c = (c \<in> set [CHR 0x20, CHR 0x09, CHR 0x0A, CHR 0x0B, CHR 0x0C, CHR 0x0D])"

definition int_max_str_digits :: nat where
  "int_max_str_digits = 4300"

definition strip :: "string \<Rightarrow> string" where
  "strip s = rev (dropWhile is_space (rev (dropWhile is_space s)))"

definition digit_val :: "char \<Rightarrow> nat option" where
  "digit_val c = map_of (zip ''0123456789'' [0, 1, 2, 3, 4, 5, 6, 7, 8, 9]) c"

fun digits_loop :: "nat \<Rightarrow> string \<Rightarrow> nat option" where
  "digits_loop acc [] = Some acc"
| "digits_loop acc (c # cs) =
     (if c = CHR ''_'' then
        (case cs of
           [] \<Rightarrow> None
         | d # ds \<Rightarrow> if d = CHR ''_'' then None else digits_loop acc cs)
      else
        (case digit_val c of
           None \<Rightarrow> None
         | Some d \<Rightarrow> digits_loop (10 * acc + d) cs))"

definition count_digits :: "string \<Rightarrow> nat" where
  "count_digits s = length (filter (\<lambda>c. c \<noteq> CHR ''_'') s)"

definition parse_digits :: "string \<Rightarrow> nat option" where
  "parse_digits s =
     (case s of
        [] \<Rightarrow> None
      | c # cs \<Rightarrow>
          if c = CHR ''_'' then None
          else if int_max_str_digits < count_digits s then None
          else digits_loop 0 s)"

definition py_int :: "string \<Rightarrow> py_exn + int" where
  "py_int s =
     (let t = strip s;
          r = (case t of
                 [] \<Rightarrow> None
               | c # cs \<Rightarrow>
                   if c = CHR ''-'' then map_option (\<lambda>n. - int n) (parse_digits cs)
                   else if c = CHR ''+'' then map_option int (parse_digits cs)
                   else map_option int (parse_digits t))
      in case r of None \<Rightarrow> Inl (InvalidLiteral s) | Some i \<Rightarrow> Inr i)"

subsection \<open>\<^verbatim>\<open>parse_player_configs\<close>\<close>

text \<open>
  The environment is the list of the items of \<^verbatim>\<open>os.environ\<close>, in its order;
  \<^verbatim>\<open>env_vars.get(k)\<close> is \<open>map_of env k\<close>.
\<close>

type_synonym environ = "(string \<times> string) list"

definition is_player_token :: "string \<Rightarrow> bool" where
  \<comment> \<open>the condition of the comprehension of line 168.\<close>
  "is_player_token k = (startswith k ''DISCORD_BOT_TOKEN_'' \<and> k \<noteq> ''DISCORD_BOT_TOKEN_MAP'')"

definition player_tokens :: "environ \<Rightarrow> (string \<times> string) list" where
  "player_tokens env = filter (\<lambda>(k, v). is_player_token k) env"

definition player_name_of :: "string \<Rightarrow> string" where
  \<comment> \<open>line 172.\<close>
  "player_name_of token_key = upper (str_replace token_key ''DISCORD_BOT_TOKEN_'' [])"

definition uid_key_of :: "string \<Rightarrow> string" where
  "uid_key_of pname = ''PLAYER_UID_'' @ pname"

definition delay_key_of :: "string \<Rightarrow> string" where
  "delay_key_of pname = ''STARTUP_DELAY_'' @ pname"

definition truthy_uid :: "environ \<Rightarrow> string \<Rightarrow> string option" where
  \<comment> \<open>\<^verbatim>\<open>env_vars.get(uid_key)\<close> when it passes the test of line 178: \<^verbatim>\<open>not player_uid\<close>
      holds when the key is absent and when its value is the empty string.\<close>
  "truthy_uid env pname =
     (case map_of env (uid_key_of pname) of
        None \<Rightarrow> None
      | Some u \<Rightarrow> if u = [] then None else Some u)"

definition delay_text :: "environ \<Rightarrow> string \<Rightarrow> string" where
  \<comment> \<open>\<^verbatim>\<open>env_vars.get(delay_key, '0')\<close>.\<close>
  "delay_text env pname =
     (case map_of env (delay_key_of pname) of None \<Rightarrow> ''0'' | Some v \<Rightarrow> v)"

text \<open>
  The loop of lines 170 to 192, on the tokens still to visit, with the log and the
  configurations so far. An exception of \<^verbatim>\<open>int\<close> leaves the loop, and the function.
\<close>

fun configs_loop ::
  "environ \<Rightarrow> (string \<times> string) list \<Rightarrow> event list \<Rightarrow> player_config list
     \<Rightarrow> event list \<times> (py_exn + player_config list)" where
  "configs_loop env [] logs configs = (logs, Inr configs)"
| "configs_loop env ((token_key, token_value) # rest) logs configs =
     (let pname = player_name_of token_key in
      case truthy_uid env pname of
        None \<Rightarrow>
          configs_loop env rest
            (logs @ [Log Warning (''Missing '' @ uid_key_of pname @ '' for player '' @ pname
                                  @ '', skipping...'') None])
            configs
      | Some uid \<Rightarrow>
          (case py_int (delay_text env pname) of
             Inl e \<Rightarrow> (logs, Inl e)
           | Inr delay \<Rightarrow>
               configs_loop env rest
                 (logs @ [Log Info (''Loaded config for player: '' @ pname @ '' (UID: '' @ uid
                                    @ '', delay: '' @ str_int delay @ ''s)'') None])
                 (configs @ [\<lparr>name = pname, discord_token = token_value, player_uid = uid,
                              startup_delay = delay\<rparr>])))"

definition parse_player_configs :: "environ \<Rightarrow> event list \<times> (py_exn + player_config list)" where
  "parse_player_configs env =
     (case configs_loop env (player_tokens env) [] [] of
        (logs, Inl e) \<Rightarrow> (logs, Inl e)
      | (logs, Inr configs) \<Rightarrow>
          if configs = [] then
            (logs @ [Log Fatal (''No player configurations found! Ensure DISCORD_BOT_TOKEN_* ''
                                @ ''and PLAYER_UID_* are set in .env'') None],
             Inl (ValueError ''No player configurations found''))
          else (logs, Inr configs))"

subsection \<open>Start-up\<close>

text \<open>
  \<^verbatim>\<open>main\<close> up to the moment the bots run: the configurations are parsed first; only
  then is the shared HTTP session created and one \<^verbatim>\<open>run_bot\<close> started per configuration,
  in their order. An exception of the loader leaves \<^verbatim>\<open>main\<close> before that.
\<close>

definition main_startup :: "environ \<Rightarrow> event list \<times> (py_exn + player_config list)" where
  "main_startup env =
     (case parse_player_configs env of
        (logs, Inl e) \<Rightarrow> (logs, Inl e)
      | (logs, Inr configs) \<Rightarrow>
          (logs @ CreateSharedSession # map (\<lambda>c. RunBot (name c)) configs, Inr configs))"

definition network_event :: "event \<Rightarrow> bool" where
  "network_event ev = (case ev of Log l m e \<Rightarrow> False | _ \<Rightarrow> True)"

section \<open>Vocabulary of the properties\<close>

subsection \<open>Kinds of events\<close>

definition is_presence_update :: "event \<Rightarrow> bool" where
  "is_presence_update ev = (case ev of ChangePresence t \<Rightarrow> True | _ \<Rightarrow> False)"

definition is_nickname_edit :: "event \<Rightarrow> bool" where
  "is_nickname_edit ev = (case ev of EditNick g n \<Rightarrow> True | _ \<Rightarrow> False)"

definition is_avatar_upload :: "event \<Rightarrow> bool" where
  "is_avatar_upload ev = (case ev of EditAvatar d \<Rightarrow> True | _ \<Rightarrow> False)"

definition is_http_get :: "event \<Rightarrow> bool" where
  "is_http_get ev = (case ev of HttpGet u \<Rightarrow> True | _ \<Rightarrow> False)"

definition is_warning :: "event \<Rightarrow> bool" where
  "is_warning ev = (case ev of Log Warning m e \<Rightarrow> True | _ \<Rightarrow> False)"

text \<open>The servers in which the pass calls \<^verbatim>\<open>guild.me.edit\<close> for the nickname \<open>n\<close>.\<close>

definition needs_edit :: "pyval \<Rightarrow> guild \<Rightarrow> bool" where
  "needs_edit n g = (case me g of None \<Rightarrow> False | Some m \<Rightarrow> \<not> py_eq (nick_value (nick m)) n)"

subsection \<open>Reading a document by paths\<close>

text \<open>
  The member of an object at a key, or a default; and the object found at a key, where
  an absent key stands for the empty object and any other value is no object.
\<close>

definition field_or :: "(string, pyval) fmap \<Rightarrow> string \<Rightarrow> pyval \<Rightarrow> pyval" where
  "field_or m key dflt = (case fmlookup m key of None \<Rightarrow> dflt | Some v \<Rightarrow> v)"

definition object_at :: "(string, pyval) fmap \<Rightarrow> string \<Rightarrow> (string, pyval) fmap option" where
  "object_at m key =
     (case fmlookup m key of
        None \<Rightarrow> Some fmempty
      | Some (PDict g) \<Rightarrow> Some g
      | Some v \<Rightarrow> None)"

definition snapshot_by_paths :: "pyval \<Rightarrow> snapshot option" where
  "snapshot_by_paths data =
     (case data of
        PDict m \<Rightarrow>
          (case object_at m ''global'' of
             None \<Rightarrow> None
           | Some g \<Rightarrow>
               (case object_at g ''rank'' of
                  None \<Rightarrow> None
                | Some r \<Rightarrow>
                    Some \<lparr>player_name = field_or g ''name'' (PStr ''Unknown''),
                          rank_score = field_or r ''rankScore'' (PInt 0),
                          rank_name = field_or r ''rankName'' (PStr ''Rookie''),
                          rank_div = field_or r ''rankDiv'' (PInt 0),
                          rank_img_url = field_or r ''rankImg'' PNone\<rparr>))
      | _ \<Rightarrow> None)"

subsection \<open>Complete and incomplete records of the environment\<close>

text \<open>
  A token entry is complete when the identifier key for its player name has a non-empty
  value, and incomplete otherwise. For a complete entry, the configuration and the log
  line the loader is expected to produce; for an incomplete one, the warning. The
  expected configuration is only spoken of for a complete entry whose delay parses, so
  the branches that make \<open>expected_delay\<close> and \<open>expected_config\<close> total are never the
  ones a theorem relies on.
\<close>

definition complete_entry :: "environ \<Rightarrow> string \<times> string \<Rightarrow> bool" where
  "complete_entry env kv = (truthy_uid env (player_name_of (fst kv)) \<noteq> None)"

definition well_formed_tokens :: "environ \<Rightarrow> (string \<times> string) list" where
  "well_formed_tokens env = filter (complete_entry env) (player_tokens env)"

definition incomplete_tokens :: "environ \<Rightarrow> (string \<times> string) list" where
  "incomplete_tokens env = filter (\<lambda>kv. \<not> complete_entry env kv) (player_tokens env)"

definition delay_parses :: "environ \<Rightarrow> string \<times> string \<Rightarrow> bool" where
  "delay_parses env kv = (case py_int (delay_text env (player_name_of (fst kv))) of
                            Inl e \<Rightarrow> False | Inr d \<Rightarrow> True)"

definition expected_delay :: "environ \<Rightarrow> string \<Rightarrow> int" where
  "expected_delay env pname =
     (case map_of env (delay_key_of pname) of
        None \<Rightarrow> 0
      | Some v \<Rightarrow> (case py_int v of Inl e \<Rightarrow> 0 | Inr d \<Rightarrow> d))"

definition expected_config :: "environ \<Rightarrow> string \<times> string \<Rightarrow> player_config" where
  "expected_config env kv =
     \<lparr>name = player_name_of (fst kv),
      discord_token = snd kv,
      player_uid = (case truthy_uid env (player_name_of (fst kv)) of None \<Rightarrow> [] | Some u \<Rightarrow> u),
      startup_delay = expected_delay env (player_name_of (fst kv))\<rparr>"

definition entry_log :: "environ \<Rightarrow> string \<times> string \<Rightarrow> event" where
  "entry_log env kv =
     (let pname = player_name_of (fst kv) in
      if complete_entry env kv then
        Log Info (''Loaded config for player: '' @ pname @ '' (UID: ''
                  @ player_uid (expected_config env kv) @ '', delay: ''
                  @ str_int (expected_delay env pname) @ ''s)'') None
      else
        Log Warning (''Missing '' @ uid_key_of pname @ '' for player '' @ pname
                     @ '', skipping...'') None)"

definition no_configs_fatal :: event where
  "no_configs_fatal =
     Log Fatal (''No player configurations found! Ensure DISCORD_BOT_TOKEN_* ''
                @ ''and PLAYER_UID_* are set in .env'') None"

subsection \<open>Concrete inputs\<close>

definition no_repr :: "pyval \<Rightarrow> string" where
  "no_repr v = []"

definition shroud_doc :: pyval where
  "shroud_doc =
     PDict (fmap_of_list
       [(''global'', PDict (fmap_of_list
           [(''name'', PStr ''Shroud''),
            (''rank'', PDict (fmap_of_list
               [(''rankScore'', PInt 15000), (''rankName'', PStr ''Master''),
                (''rankDiv'', PInt 1), (''rankImg'', PStr ''http://x/badge.png'')]))]))])"

definition doc_null_global :: pyval where
  "doc_null_global = PDict (fmap_of_list [(''global'', PNone)])"

definition doc_no_rank :: pyval where
  "doc_no_rank = PDict (fmap_of_list [(''global'', PDict (fmap_of_list [(''name'', PStr ''Nino'')]))])"

definition shroud_snapshot :: snapshot where
  "shroud_snapshot =
     \<lparr>player_name = PStr ''Shroud'', rank_score = PInt 15000, rank_name = PStr ''Master'',
      rank_div = PInt 1, rank_img_url = PStr ''http://x/badge.png''\<rparr>"

definition shroud_bot :: bot where
  "shroud_bot = new_bot ''KEY'' \<lparr>name = ''SHROUD'', discord_token = ''tok'', player_uid = ''42'',
                                startup_delay = 0\<rparr>"

definition guild_free :: guild where
  "guild_free = \<lparr>guild_name = ''Alpha'', me = Some \<lparr>nick = None, edit_raises = None\<rparr>\<rparr>"

definition guild_forbidden :: guild where
  "guild_forbidden = \<lparr>guild_name = ''Beta'', me = Some \<lparr>nick = None, edit_raises = Some Forbidden\<rparr>\<rparr>"

definition guild_named :: guild where
  "guild_named = \<lparr>guild_name = ''Gamma'', me = Some \<lparr>nick = Some ''Shroud'', edit_raises = None\<rparr>\<rparr>"

definition ok_response :: "pyval \<Rightarrow> response" where
  "ok_response data = \<lparr>status = 200, json_body = Inr data, text_body = Inr []\<rparr>"

definition calm_world :: "guild list \<Rightarrow> world" where
  \<comment> \<open>the stats API answers 200 with the Shroud document, and every call succeeds.\<close>
  "calm_world gs =
     \<lparr>stats_get = Inr (ok_response shroud_doc), presence_raises = None, guilds = gs,
      badge_get = Inr 200, badge_png = Inr ''PNG'', avatar_raises = None\<rparr>"

definition presence_down_world :: "guild list \<Rightarrow> world" where
  \<comment> \<open>as \<open>calm_world\<close>, but \<^verbatim>\<open>change_presence\<close> raises.\<close>
  "presence_down_world gs = (calm_world gs)\<lparr>presence_raises := Some (OtherException ''gateway'')\<rparr>"

definition failing_world :: "int \<Rightarrow> string \<Rightarrow> world" where
  \<comment> \<open>the stats API answers with a status and a body that is no JSON.\<close>
  "failing_world st body =
     \<lparr>stats_get = Inr \<lparr>status = st, json_body = Inl (OtherException ''ContentTypeError''),
                        text_body = Inr body\<rparr>,
      presence_raises = None, guilds = [guild_free], badge_get = Inr 200,
      badge_png = Inr ''PNG'', avatar_raises = None\<rparr>"

definition shroud_doc_verbose :: pyval where
  "shroud_doc_verbose =
     PDict (fmap_of_list
       [(''realtime'', PDict (fmap_of_list [(''isOnline'', PInt 1)])),
        (''global'', PDict (fmap_of_list
           [(''rank'', PDict (fmap_of_list
               [(''rankImg'', PStr ''http://x/badge.png''), (''rankDiv'', PInt 1),
                (''rankName'', PStr ''Master''), (''rankScore'', PInt 15000),
                (''rankedSeason'', PStr ''season21'')])),
            (''level'', PInt 500),
            (''name'', PStr ''Shroud'')]))])"

definition verbose_world :: "guild list \<Rightarrow> world" where
  \<comment> \<open>as \<open>calm_world\<close>, but the document has more members, in another order.\<close>
  "verbose_world gs = (calm_world gs)\<lparr>stats_get := Inr (ok_response shroud_doc_verbose)\<rparr>"

definition unreadable_world :: world where
  \<comment> \<open>the stats API answers 500, and reading the body raises.\<close>
  "unreadable_world =
     \<lparr>stats_get = Inr \<lparr>status = 500, json_body = Inl (OtherException ''ContentTypeError''),
                        text_body = Inl (OtherException ''ClientPayloadError'')\<rparr>,
      presence_raises = None, guilds = [guild_free], badge_get = Inr 200,
      badge_png = Inr ''PNG'', avatar_raises = None\<rparr>"

definition env_two_players :: environ where
  "env_two_players =
     [(''APEX_API_KEY'', ''KEY''),
      (''DISCORD_BOT_TOKEN_DAAN'', ''tok1''), (''PLAYER_UID_DAAN'', ''1001''),
      (''STARTUP_DELAY_DAAN'', ''30''),
      (''DISCORD_BOT_TOKEN_MAP'', ''ignored''),
      (''DISCORD_BOT_TOKEN_NINO'', ''tok2''),
      (''DISCORD_BOT_TOKEN_SHROUD'', ''tok3''), (''PLAYER_UID_SHROUD'', ''42'')]"

definition env_bad_delay :: environ where
  "env_bad_delay =
     [(''DISCORD_BOT_TOKEN_DAAN'', ''tok1''), (''PLAYER_UID_DAAN'', ''1001''),
      (''STARTUP_DELAY_DAAN'', ''abc'')]"

definition env_delay_seconds :: environ where
  "env_delay_seconds =
     [(''DISCORD_BOT_TOKEN_NINO'', ''tok2''), (''PLAYER_UID_NINO'', ''7''),
      (''STARTUP_DELAY_NINO'', ''30s'')]"

definition env_no_uid :: environ where
  "env_no_uid = [(''DISCORD_BOT_TOKEN_DAAN'', ''tok1''), (''STARTUP_DELAY_DAAN'', ''abc'')]"

section \<open>Basic facts\<close>

lemma log_tag_upd [simp]:
  "log_tag (b\<lparr>last_known_score := x\<rparr>) = log_tag b"
  "log_tag (b\<lparr>last_known_name := y\<rparr>) = log_tag b"
  by (simp_all add: log_tag_def)

lemma str_int_500: "str_int 500 = ''500''"
  by (simp add: str_int_def dec_nat.simps digit_char_def)

lemma parse_shroud_doc: "parse_data shroud_doc = Inr shroud_snapshot"
  by (simp add: parse_data_def shroud_doc_def shroud_snapshot_def bind_exn_def fmlookup_of_list)

lemma format_comma_15000: "format_comma_int 15000 = ''15,000''"
  by (simp add: format_comma_int_def group_thousands_def dec_nat.simps digit_char_def)

lemma str_int_1: "str_int 1 = ''1''"
  by (simp add: str_int_def dec_nat.simps digit_char_def)

lemma status_text_shroud: "status_text repr shroud_snapshot = Inr ''Master 1 - 15,000 RP''"
  by (simp add: status_text_def shroud_snapshot_def bind_exn_def format_comma_15000 str_int_1)

lemma py_eq_refl [simp]: "py_eq v v"
  by (simp add: py_eq_def)

lemma nickname_in_guild_upd [simp]:
  "nickname_in_guild (b\<lparr>last_known_score := x\<rparr>) n g = nickname_in_guild b n g"
  "nickname_in_guild (b\<lparr>last_known_name := y\<rparr>) n g = nickname_in_guild b n g"
  by (simp_all add: nickname_in_guild_def split: option.splits py_exn.splits)

lemma nickname_loop_upd [simp]:
  "nickname_loop (b\<lparr>last_known_score := x\<rparr>) n gs = nickname_loop b n gs"
  "nickname_loop (b\<lparr>last_known_name := y\<rparr>) n gs = nickname_loop b n gs"
  by (induction gs) simp_all

lemma update_all_nicknames_upd [simp]:
  "update_all_nicknames repr w (b\<lparr>last_known_score := x\<rparr>) n = update_all_nicknames repr w b n"
  "update_all_nicknames repr w (b\<lparr>last_known_name := y\<rparr>) n = update_all_nicknames repr w b n"
  by (simp_all add: update_all_nicknames_def)

lemma update_avatar_upd [simp]:
  "update_avatar w (b\<lparr>last_known_score := x\<rparr>) u = update_avatar w b u"
  "update_avatar w (b\<lparr>last_known_name := y\<rparr>) u = update_avatar w b u"
  by (simp_all add: update_avatar_def split: option.splits sum.splits)

lemma nickname_loop_append:
  "nickname_loop b n (xs @ ys) = nickname_loop b n xs @ nickname_loop b n ys"
  by (induction xs) simp_all

lemma nickname_in_guild_edits:
  "filter is_nickname_edit (nickname_in_guild b n g) =
     (if needs_edit n g then [EditNick (guild_name g) n] else [])"
  by (simp add: nickname_in_guild_def needs_edit_def is_nickname_edit_def
           split: option.splits py_exn.splits)

lemma nickname_loop_edits:
  "filter is_nickname_edit (nickname_loop b n gs) =
     map (\<lambda>g. EditNick (guild_name g) n) (filter (needs_edit n) gs)"
  by (induction gs) (simp_all add: nickname_in_guild_edits)

lemma nickname_in_guild_others:
  "filter is_presence_update (nickname_in_guild b n g) = []"
  "filter is_http_get (nickname_in_guild b n g) = []"
  "filter is_avatar_upload (nickname_in_guild b n g) = []"
  by (simp_all add: nickname_in_guild_def is_presence_update_def is_http_get_def
        is_avatar_upload_def split: option.splits py_exn.splits)

lemma nickname_loop_others:
  "filter is_presence_update (nickname_loop b n gs) = []"
  "filter is_http_get (nickname_loop b n gs) = []"
  "filter is_avatar_upload (nickname_loop b n gs) = []"
  by (induction gs) (simp_all add: nickname_in_guild_others)

lemma update_all_nicknames_filters:
  "filter is_nickname_edit (update_all_nicknames repr w b n) =
     map (\<lambda>g. EditNick (guild_name g) n) (filter (needs_edit n) (guilds w))"
  "filter is_presence_update (update_all_nicknames repr w b n) = []"
  "filter is_http_get (update_all_nicknames repr w b n) = []"
  "filter is_avatar_upload (update_all_nicknames repr w b n) = []"
  by (simp_all add: update_all_nicknames_def nickname_loop_edits nickname_loop_others
        is_nickname_edit_def is_presence_update_def is_http_get_def is_avatar_upload_def)

lemma update_avatar_filters:
  "filter is_nickname_edit (update_avatar w b u) = []"
  "filter is_presence_update (update_avatar w b u) = []"
  "filter is_http_get (update_avatar w b u) = [HttpGet u]"
  "filter is_avatar_upload (update_avatar w b u) =
     (case badge_get w of
        Inl e \<Rightarrow> []
      | Inr st \<Rightarrow> (case badge_png w of
                    Inl e \<Rightarrow> []
                  | Inr png \<Rightarrow> if st = 200 then [EditAvatar png] else []))"
  by (simp_all add: update_avatar_def is_nickname_edit_def is_presence_update_def
        is_http_get_def is_avatar_upload_def split: sum.splits option.splits)

text \<open>The three steps when the presence call, if any, returns.\<close>

lemma apply_snapshot_returns:
  assumes "last_known_score b = Some text \<or> presence_raises w = None"
  shows "apply_snapshot repr w b s text =
           ((if last_known_score b \<noteq> Some text then
               [ChangePresence text, Log Info (log_tag b @ ''Status Updated: '' @ text) None]
             else [])
            @ (if \<not> py_eq (player_name s) (last_known_name b) then
                 update_all_nicknames repr w b (player_name s)
               else [])
            @ (if py_truthy (rank_img_url s) \<and> last_known_score b \<noteq> Some text then
                 Log Info (log_tag b @ ''Score changed; updating avatar to current rank badge...'')
                          None
                 # update_avatar w b (rank_img_url s)
               else []),
            b\<lparr>last_known_score := Some text,
              last_known_name := (if \<not> py_eq (player_name s) (last_known_name b)
                                  then player_name s else last_known_name b)\<rparr>,
            None)"
  using assms by (auto simp add: apply_snapshot_def Let_def)

lemma apply_snapshot_raises:
  assumes "last_known_score b \<noteq> Some text" and "presence_raises w = Some e"
  shows "apply_snapshot repr w b s text = ([ChangePresence text], b, Some e)"
  using assms by (simp add: apply_snapshot_def)

lemma task_on_snapshot:
  assumes "stats_get w = Inr r" and "status r = 200" and "json_body r = Inr data"
    and "parse_data data = Inr s" and "status_text repr s = Inr text"
  shows "update_stats_task repr w b =
           (case apply_snapshot repr w b s text of
              (evs, b', None) \<Rightarrow> (HttpGet (PStr (api_url b)) # evs, b')
            | (evs, b', Some e) \<Rightarrow>
                (HttpGet (PStr (api_url b)) # evs
                 @ [Log Error (log_tag b @ ''Error in main loop: '') (Some e)], b'))"
  using assms
  by (simp add: update_stats_task_def stats_try_def bind_exn_def split: prod.splits option.splits)

lemma shroud_cycle_run:
  assumes "stats_get w = Inr r" and "status r = 200" and "json_body r = Inr shroud_doc"
    and "presence_raises w = None"
    and "last_known_name b = PNone" and "last_known_score b = None"
  shows "update_stats_task repr w b =
           (HttpGet (PStr (api_url b))
            # ChangePresence ''Master 1 - 15,000 RP''
            # Log Info (log_tag b @ ''Status Updated: Master 1 - 15,000 RP'') None
            # update_all_nicknames repr w b (PStr ''Shroud'')
            @ Log Info (log_tag b @ ''Score changed; updating avatar to current rank badge...'')
                       None
            # update_avatar w b (PStr ''http://x/badge.png''),
            b\<lparr>last_known_score := Some ''Master 1 - 15,000 RP'',
              last_known_name := PStr ''Shroud''\<rparr>)"
proof -
  have ok: "last_known_score b = Some ''Master 1 - 15,000 RP'' \<or> presence_raises w = None"
    using assms(4) by simp
  have ne: "\<not> py_eq (PStr ''Shroud'') PNone"
    by (simp add: py_eq_def)
  show ?thesis
    using assms(5,6) ne
    by (simp add: task_on_snapshot [OF assms(1-3) parse_shroud_doc status_text_shroud]
          apply_snapshot_returns [OF ok])
      (simp add: shroud_snapshot_def)
qed

lemma calm_world_facts:
  "stats_get (calm_world gs) = Inr (ok_response shroud_doc)"
  "presence_raises (calm_world gs) = None"
  "guilds (calm_world gs) = gs"
  "badge_get (calm_world gs) = Inr 200"
  "badge_png (calm_world gs) = Inr ''PNG''"
  "avatar_raises (calm_world gs) = None"
  by (simp_all add: calm_world_def)

lemma parse_shroud_doc_verbose: "parse_data shroud_doc_verbose = Inr shroud_snapshot"
  by (simp add: parse_data_def shroud_doc_verbose_def shroud_snapshot_def bind_exn_def
      fmlookup_of_list)

lemma shroud_docs_differ: "shroud_doc_verbose \<noteq> shroud_doc"
proof
  assume "shroud_doc_verbose = shroud_doc"
  then have "py_get shroud_doc_verbose ''realtime'' PNone = py_get shroud_doc ''realtime'' PNone"
    by simp
  then show False
    by (simp add: shroud_doc_verbose_def shroud_doc_def fmlookup_of_list)
qed

lemma verbose_world_facts:
  "stats_get (verbose_world gs) = Inr (ok_response shroud_doc_verbose)"
  "presence_raises (verbose_world gs) = None"
  by (simp_all add: verbose_world_def calm_world_def)

lemma presence_down_world_facts:
  "stats_get (presence_down_world gs) = Inr (ok_response shroud_doc)"
  "presence_raises (presence_down_world gs) = Some (OtherException ''gateway'')"
  "guilds (presence_down_world gs) = gs"
  by (simp_all add: presence_down_world_def calm_world_def)

lemma ok_response_facts:
  "status (ok_response d) = 200"
  "json_body (ok_response d) = Inr d"
  by (simp_all add: ok_response_def)

lemma shroud_bot_facts:
  "last_known_name shroud_bot = PNone"
  "last_known_score shroud_bot = None"
  "log_tag shroud_bot = ''[SHROUD] ''"
  "api_url shroud_bot = ''https://api.mozambiquehe.re/bridge?auth=KEY&player=42&platform=PC''"
  by (simp_all add: shroud_bot_def new_bot_def log_tag_def)

lemma shroud_snapshot_facts:
  "player_name shroud_snapshot = PStr ''Shroud''"
  "rank_img_url shroud_snapshot = PStr ''http://x/badge.png''"
  by (simp_all add: shroud_snapshot_def)

lemma needs_edit_examples:
  "needs_edit (PStr ''Shroud'') guild_free"
  "needs_edit (PStr ''Shroud'') guild_forbidden"
  "\<not> needs_edit (PStr ''Shroud'') guild_named"
  by (simp_all add: needs_edit_def guild_free_def guild_forbidden_def guild_named_def
        nick_value_def py_eq_def)

lemma guild_names:
  "guild_name guild_free = ''Alpha''"
  "guild_name guild_forbidden = ''Beta''"
  "guild_name guild_named = ''Gamma''"
  by (simp_all add: guild_free_def guild_forbidden_def guild_named_def)

section \<open>The first cycle of the Shroud scenario\<close>

text \<open>
  C1, as the code has it. On a first cycle (nothing is last-known) whose stats request is
  answered with 200 and the Shroud document, and whose presence call returns, the status
  text is \<open>Master 1 - 15,000 RP\<close>; the cycle issues exactly one presence update with that
  text, then one nickname pass that visits every joined server and calls the nickname
  edit in exactly the servers where the bot's nickname is not yet \<open>Shroud\<close>, then one
  avatar update: one download of the badge URL and, when the download is answered with
  200 and the image can be re-encoded, one upload. Both last-known values are recorded.
\<close>

theorem first_cycle_shroud:
  assumes "stats_get w = Inr r" and "status r = 200" and "json_body r = Inr shroud_doc"
    and "presence_raises w = None"
    and "last_known_name b = PNone" and "last_known_score b = None"
  shows "update_stats_task repr w b =
           (HttpGet (PStr (api_url b))
            # ChangePresence ''Master 1 - 15,000 RP''
            # Log Info (log_tag b @ ''Status Updated: Master 1 - 15,000 RP'') None
            # update_all_nicknames repr w b (PStr ''Shroud'')
            @ Log Info (log_tag b @ ''Score changed; updating avatar to current rank badge...'')
                       None
            # update_avatar w b (PStr ''http://x/badge.png''),
            b\<lparr>last_known_score := Some ''Master 1 - 15,000 RP'',
              last_known_name := PStr ''Shroud''\<rparr>)
         \<and> filter is_presence_update (fst (update_stats_task repr w b))
             = [ChangePresence ''Master 1 - 15,000 RP'']
         \<and> filter is_nickname_edit (fst (update_stats_task repr w b))
             = map (\<lambda>g. EditNick (guild_name g) (PStr ''Shroud''))
                   (filter (needs_edit (PStr ''Shroud'')) (guilds w))
         \<and> filter is_http_get (fst (update_stats_task repr w b))
             = [HttpGet (PStr (api_url b)), HttpGet (PStr ''http://x/badge.png'')]
         \<and> filter is_avatar_upload (fst (update_stats_task repr w b))
             = (case badge_get w of
                  Inl e \<Rightarrow> []
                | Inr st \<Rightarrow> (case badge_png w of
                              Inl e \<Rightarrow> []
                            | Inr png \<Rightarrow> if st = 200 then [EditAvatar png] else []))"
proof -
  note run = shroud_cycle_run [OF assms, of repr]
  show ?thesis
    unfolding run
    by (simp add: update_all_nicknames_filters update_avatar_filters
          is_presence_update_def is_nickname_edit_def is_http_get_def is_avatar_upload_def)
qed

theorem first_cycle_shroud_witness:
  "stats_get (calm_world [guild_free, guild_forbidden, guild_named]) = Inr (ok_response shroud_doc)
   \<and> status (ok_response shroud_doc) = 200
   \<and> json_body (ok_response shroud_doc) = Inr shroud_doc
   \<and> presence_raises (calm_world [guild_free, guild_forbidden, guild_named]) = None
   \<and> last_known_name shroud_bot = PNone \<and> last_known_score shroud_bot = None
   \<and> filter is_presence_update
        (fst (update_stats_task no_repr (calm_world [guild_free, guild_forbidden, guild_named])
               shroud_bot))
       = [ChangePresence ''Master 1 - 15,000 RP'']
   \<and> filter is_nickname_edit
        (fst (update_stats_task no_repr (calm_world [guild_free, guild_forbidden, guild_named])
               shroud_bot))
       = [EditNick ''Alpha'' (PStr ''Shroud''), EditNick ''Beta'' (PStr ''Shroud'')]
   \<and> filter is_http_get
        (fst (update_stats_task no_repr (calm_world [guild_free, guild_forbidden, guild_named])
               shroud_bot))
       = [HttpGet (PStr ''https://api.mozambiquehe.re/bridge?auth=KEY&player=42&platform=PC''),
          HttpGet (PStr ''http://x/badge.png'')]
   \<and> filter is_avatar_upload
        (fst (update_stats_task no_repr (calm_world [guild_free, guild_forbidden, guild_named])
               shroud_bot))
       = [EditAvatar ''PNG'']"
  using first_cycle_shroud
          [OF calm_world_facts(1) [of "[guild_free, guild_forbidden, guild_named]"]
              ok_response_facts calm_world_facts(2) shroud_bot_facts(1,2),
           where repr = no_repr, THEN conjunct2]
  by (simp add: calm_world_facts ok_response_facts shroud_bot_facts needs_edit_examples
        guild_names)

text \<open>
  C1 as it is written asks for one nickname update attempt per joined server. In a
  server where the bot is already called \<open>Shroud\<close> the guard of line 120 skips the edit:
  with that single joined server the first cycle issues no nickname edit at all.
\<close>

theorem first_cycle_nickname_counterexample:
  "last_known_name shroud_bot = PNone \<and> last_known_score shroud_bot = None
   \<and> stats_get (calm_world [guild_named]) = Inr (ok_response shroud_doc)
   \<and> guilds (calm_world [guild_named]) = [guild_named]
   \<and> filter is_nickname_edit
        (fst (update_stats_task no_repr (calm_world [guild_named]) shroud_bot)) = []"
  by (simp add: shroud_cycle_run [OF calm_world_facts(1) ok_response_facts calm_world_facts(2)
        shroud_bot_facts(1,2)] calm_world_facts shroud_bot_facts
        update_all_nicknames_filters update_avatar_filters needs_edit_examples
        is_nickname_edit_def)

section \<open>Two cycles with the same snapshot\<close>

text \<open>
  C6, as the code has it. Let two consecutive cycles be answered with status 200 and
  with documents, the same or not, from which the extraction reads the same snapshot
  (or fails alike), and let the presence call of the first cycle not raise. Then the
  second cycle leaves the bot as the first one left it and issues no presence update, no
  nickname edit and no avatar upload; its only request is the one to the stats API.
  This holds for every bot state, every snapshot and every outcome of the other calls.
\<close>

theorem second_cycle_is_silent:
  assumes "stats_get w1 = Inr r1" and "status r1 = 200" and "json_body r1 = Inr d1"
    and "stats_get w2 = Inr r2" and "status r2 = 200" and "json_body r2 = Inr d2"
    and "parse_data d1 = parse_data d2"
    and "presence_raises w1 = None"
  shows "snd (update_stats_task repr w2 (snd (update_stats_task repr w1 b)))
           = snd (update_stats_task repr w1 b)
         \<and> filter is_presence_update
              (fst (update_stats_task repr w2 (snd (update_stats_task repr w1 b)))) = []
         \<and> filter is_nickname_edit
              (fst (update_stats_task repr w2 (snd (update_stats_task repr w1 b)))) = []
         \<and> filter is_avatar_upload
              (fst (update_stats_task repr w2 (snd (update_stats_task repr w1 b)))) = []
         \<and> filter is_http_get
              (fst (update_stats_task repr w2 (snd (update_stats_task repr w1 b))))
             = [HttpGet (PStr (api_url b))]"
proof (cases "bind_exn (parse_data d1) (status_text repr)")
  case (Inl e)
  then have Inl2: "bind_exn (parse_data d2) (status_text repr) = Inl e"
    using assms(7) by simp
  have 1: "update_stats_task repr w1 b' =
             ([HttpGet (PStr (api_url b')),
               Log Error (log_tag b' @ ''Error in main loop: '') (Some e)], b')" for b'
    using Inl assms(1-3)
    by (auto simp add: update_stats_task_def stats_try_def bind_exn_def split: sum.splits)
  have 2: "update_stats_task repr w2 b' =
             ([HttpGet (PStr (api_url b')),
               Log Error (log_tag b' @ ''Error in main loop: '') (Some e)], b')" for b'
    using Inl2 assms(4-6)
    by (auto simp add: update_stats_task_def stats_try_def bind_exn_def split: sum.splits)
  show ?thesis
    by (simp add: 1 2 is_presence_update_def is_nickname_edit_def is_avatar_upload_def
          is_http_get_def)
next
  case (Inr tx)
  then obtain s where s: "parse_data d1 = Inr s" and t: "status_text repr s = Inr tx"
    by (auto simp add: bind_exn_def split: sum.splits)
  from s assms(7) have s2: "parse_data d2 = Inr s"
    by simp
  define b1 where "b1 = b\<lparr>last_known_score := Some tx,
                          last_known_name := (if \<not> py_eq (player_name s) (last_known_name b)
                                              then player_name s else last_known_name b)\<rparr>"
  have ok1: "last_known_score b = Some tx \<or> presence_raises w1 = None"
    using assms(8) by simp
  have first: "snd (update_stats_task repr w1 b) = b1"
    by (simp add: task_on_snapshot [OF assms(1-3) s t] apply_snapshot_returns [OF ok1] b1_def)
  have ok2: "last_known_score b1 = Some tx \<or> presence_raises w2 = None"
    by (simp add: b1_def)
  have same: "py_eq (player_name s) (last_known_name b1)"
    by (simp add: b1_def)
  have second: "update_stats_task repr w2 b1 = ([HttpGet (PStr (api_url b1))], b1)"
    using same
    by (simp add: task_on_snapshot [OF assms(4-6) s2 t] apply_snapshot_returns [OF ok2])
      (simp add: b1_def)
  have url: "api_url b1 = api_url b"
    by (simp add: b1_def)
  show ?thesis
    by (simp add: first second url is_presence_update_def is_nickname_edit_def
          is_avatar_upload_def is_http_get_def)
qed

theorem second_cycle_is_silent_witness:
  "stats_get (calm_world [guild_free]) = Inr (ok_response shroud_doc)
   \<and> status (ok_response shroud_doc) = 200
   \<and> json_body (ok_response shroud_doc) = Inr shroud_doc
   \<and> stats_get (verbose_world [guild_forbidden]) = Inr (ok_response shroud_doc_verbose)
   \<and> status (ok_response shroud_doc_verbose) = 200
   \<and> json_body (ok_response shroud_doc_verbose) = Inr shroud_doc_verbose
   \<and> shroud_doc_verbose \<noteq> shroud_doc
   \<and> parse_data shroud_doc = parse_data shroud_doc_verbose
   \<and> presence_raises (calm_world [guild_free]) = None
   \<and> snd (update_stats_task no_repr (verbose_world [guild_forbidden])
            (snd (update_stats_task no_repr (calm_world [guild_free]) shroud_bot)))
       = snd (update_stats_task no_repr (calm_world [guild_free]) shroud_bot)
   \<and> filter is_presence_update
        (fst (update_stats_task no_repr (verbose_world [guild_forbidden])
               (snd (update_stats_task no_repr (calm_world [guild_free]) shroud_bot)))) = []
   \<and> filter is_nickname_edit
        (fst (update_stats_task no_repr (verbose_world [guild_forbidden])
               (snd (update_stats_task no_repr (calm_world [guild_free]) shroud_bot)))) = []
   \<and> filter is_avatar_upload
        (fst (update_stats_task no_repr (verbose_world [guild_forbidden])
               (snd (update_stats_task no_repr (calm_world [guild_free]) shroud_bot)))) = []
   \<and> filter is_http_get
        (fst (update_stats_task no_repr (verbose_world [guild_forbidden])
               (snd (update_stats_task no_repr (calm_world [guild_free]) shroud_bot))))
       = [HttpGet (PStr (api_url shroud_bot))]"
proof -
  have same: "parse_data shroud_doc = parse_data shroud_doc_verbose"
    by (simp add: parse_shroud_doc parse_shroud_doc_verbose)
  show ?thesis
    using second_cycle_is_silent
            [OF calm_world_facts(1) [of "[guild_free]"] ok_response_facts
                verbose_world_facts(1) [of "[guild_forbidden]"] ok_response_facts
                same calm_world_facts(2),
             where repr = no_repr and b = shroud_bot]
      shroud_docs_differ same
    by (simp add: calm_world_facts verbose_world_facts ok_response_facts)
qed

text \<open>
  C6 as it is written holds for every state and snapshot. When the presence call of the
  first cycle raises, that cycle records nothing, and the second cycle with the same
  snapshot issues the presence update and the nickname edit, and changes the bot.
\<close>

theorem second_cycle_counterexample:
  "stats_get (presence_down_world [guild_free]) = Inr (ok_response shroud_doc)
   \<and> stats_get (calm_world [guild_free]) = Inr (ok_response shroud_doc)
   \<and> snd (update_stats_task no_repr (presence_down_world [guild_free]) shroud_bot) = shroud_bot
   \<and> filter is_presence_update
        (fst (update_stats_task no_repr (calm_world [guild_free])
               (snd (update_stats_task no_repr (presence_down_world [guild_free]) shroud_bot))))
       = [ChangePresence ''Master 1 - 15,000 RP'']
   \<and> filter is_nickname_edit
        (fst (update_stats_task no_repr (calm_world [guild_free])
               (snd (update_stats_task no_repr (presence_down_world [guild_free]) shroud_bot))))
       = [EditNick ''Alpha'' (PStr ''Shroud'')]
   \<and> snd (update_stats_task no_repr (calm_world [guild_free])
               (snd (update_stats_task no_repr (presence_down_world [guild_free]) shroud_bot)))
       \<noteq> snd (update_stats_task no_repr (presence_down_world [guild_free]) shroud_bot)"
proof -
  have first: "update_stats_task no_repr (presence_down_world [guild_free]) shroud_bot =
      ([HttpGet (PStr (api_url shroud_bot)), ChangePresence ''Master 1 - 15,000 RP'',
        Log Error (log_tag shroud_bot @ ''Error in main loop: '')
                  (Some (OtherException ''gateway''))], shroud_bot)"
    by (simp add: task_on_snapshot [OF presence_down_world_facts(1) ok_response_facts
          parse_shroud_doc status_text_shroud]
          apply_snapshot_raises [OF _ presence_down_world_facts(2)] shroud_bot_facts)
  have "shroud_bot\<lparr>last_known_score := Some ''Master 1 - 15,000 RP'',
                   last_known_name := PStr ''Shroud''\<rparr> \<noteq> shroud_bot"
    by (simp add: shroud_bot_def new_bot_def)
  then show ?thesis
    by (simp add: first shroud_cycle_run [OF calm_world_facts(1) ok_response_facts
          calm_world_facts(2) shroud_bot_facts(1,2)] calm_world_facts
          presence_down_world_facts update_all_nicknames_filters update_avatar_filters
          needs_edit_examples guild_names is_presence_update_def is_nickname_edit_def)
qed

section \<open>The gate of the avatar update\<close>

text \<open>
  C7, as the code has it. In a cycle that has read a snapshot and formatted its status
  text, the avatar update runs (the badge is requested, once) if and only if the badge
  URL is truthy, the status text differs from the last-known one, and the presence call
  of this cycle did not raise. An upload happens only under the same condition. When the
  status text equals the last-known one there is no avatar request and no upload,
  whatever the display name is.
\<close>

theorem avatar_update_gate:
  assumes "stats_get w = Inr r" and "status r = 200" and "json_body r = Inr data"
    and "parse_data data = Inr s" and "status_text repr s = Inr text"
  shows "filter is_http_get (tl (fst (update_stats_task repr w b))) =
           (if py_truthy (rank_img_url s) \<and> last_known_score b \<noteq> Some text
               \<and> presence_raises w = None
            then [HttpGet (rank_img_url s)] else [])
         \<and> (filter is_avatar_upload (fst (update_stats_task repr w b)) \<noteq> []
              \<longrightarrow> py_truthy (rank_img_url s) \<and> last_known_score b \<noteq> Some text
                  \<and> presence_raises w = None)
         \<and> (last_known_score b = Some text
              \<longrightarrow> filter is_http_get (tl (fst (update_stats_task repr w b))) = []
                  \<and> filter is_avatar_upload (fst (update_stats_task repr w b)) = [])"
proof (cases "last_known_score b = Some text \<or> presence_raises w = None")
  case True
  show ?thesis
    using True
    by (auto simp add: task_on_snapshot [OF assms] apply_snapshot_returns [OF True]
          update_all_nicknames_filters update_avatar_filters
          is_http_get_def is_avatar_upload_def)
next
  case False
  then obtain e where "last_known_score b \<noteq> Some text" and "presence_raises w = Some e"
    by auto
  then show ?thesis
    by (simp add: task_on_snapshot [OF assms] apply_snapshot_raises
          is_http_get_def is_avatar_upload_def)
qed

theorem avatar_update_gate_witness:
  "stats_get (calm_world [guild_free]) = Inr (ok_response shroud_doc)
   \<and> status (ok_response shroud_doc) = 200
   \<and> json_body (ok_response shroud_doc) = Inr shroud_doc
   \<and> parse_data shroud_doc = Inr shroud_snapshot
   \<and> status_text no_repr shroud_snapshot = Inr ''Master 1 - 15,000 RP''
   \<and> filter is_http_get (tl (fst (update_stats_task no_repr (calm_world [guild_free]) shroud_bot)))
       = [HttpGet (PStr ''http://x/badge.png'')]
   \<and> last_known_score (shroud_bot\<lparr>last_known_score := Some ''Master 1 - 15,000 RP''\<rparr>)
       = Some ''Master 1 - 15,000 RP''
   \<and> \<not> py_eq (player_name shroud_snapshot)
             (last_known_name (shroud_bot\<lparr>last_known_score := Some ''Master 1 - 15,000 RP''\<rparr>))
   \<and> filter is_http_get
        (tl (fst (update_stats_task no_repr (calm_world [guild_free])
                   (shroud_bot\<lparr>last_known_score := Some ''Master 1 - 15,000 RP''\<rparr>)))) = []
   \<and> filter is_avatar_upload
        (fst (update_stats_task no_repr (calm_world [guild_free])
               (shroud_bot\<lparr>last_known_score := Some ''Master 1 - 15,000 RP''\<rparr>))) = []"
  using avatar_update_gate
          [OF calm_world_facts(1) [of "[guild_free]"] ok_response_facts parse_shroud_doc
              status_text_shroud [of no_repr],
           where b = shroud_bot]
        avatar_update_gate
          [OF calm_world_facts(1) [of "[guild_free]"] ok_response_facts parse_shroud_doc
              status_text_shroud [of no_repr],
           where b = "shroud_bot\<lparr>last_known_score := Some ''Master 1 - 15,000 RP''\<rparr>"]
  by (simp add: calm_world_facts ok_response_facts parse_shroud_doc status_text_shroud
        shroud_bot_facts shroud_snapshot_facts py_eq_def)

text \<open>
  C7 as it is written makes the avatar update run whenever a badge URL is present and
  the status text has changed. When the presence call raises, the URL is present and
  the text has changed, and yet no badge is requested and nothing is uploaded.
\<close>

theorem avatar_gate_counterexample:
  "stats_get (presence_down_world [guild_free]) = Inr (ok_response shroud_doc)
   \<and> parse_data shroud_doc = Inr shroud_snapshot
   \<and> status_text no_repr shroud_snapshot = Inr ''Master 1 - 15,000 RP''
   \<and> py_truthy (rank_img_url shroud_snapshot)
   \<and> last_known_score shroud_bot \<noteq> Some ''Master 1 - 15,000 RP''
   \<and> filter is_http_get
        (tl (fst (update_stats_task no_repr (presence_down_world [guild_free]) shroud_bot))) = []
   \<and> filter is_avatar_upload
        (fst (update_stats_task no_repr (presence_down_world [guild_free]) shroud_bot)) = []"
  by (simp add: task_on_snapshot [OF presence_down_world_facts(1) ok_response_facts
        parse_shroud_doc status_text_shroud]
        apply_snapshot_raises [OF _ presence_down_world_facts(2)] shroud_bot_facts
        presence_down_world_facts parse_shroud_doc status_text_shroud shroud_snapshot_facts
        is_http_get_def is_avatar_upload_def)

section \<open>A cycle whose stats request is not answered with 200\<close>

text \<open>
  C8, as the code has it. When the stats API answers with a status other than 200, the
  cycle consists of the request and exactly one log record, and the bot (its last-known
  name and status text) is unchanged: there is no presence, nickname or avatar call. For
  429 the record is the rate-limit warning. For any other status it is, when the body of
  the response can be read, an error whose text holds the status and the body; and when
  reading the body raises, the error record of the handler of the main loop, with that
  exception, which holds neither the status nor the body.
\<close>

theorem non_200_cycle:
  assumes "stats_get w = Inr r" and "status r \<noteq> 200"
  shows "update_stats_task repr w b =
           ([HttpGet (PStr (api_url b)),
             (if status r = 429 then
                Log Warning (log_tag b @ ''Rate Limit Hit (429). Waiting...'') None
              else
                (case text_body r of
                   Inr body \<Rightarrow>
                     Log Error (log_tag b @ ''API Failed: '' @ str_int (status r) @ '' - '' @ body)
                               None
                 | Inl e \<Rightarrow> Log Error (log_tag b @ ''Error in main loop: '') (Some e)))],
            b)"
  using assms by (simp add: update_stats_task_def stats_try_def split: sum.splits)

theorem non_200_cycle_witness:
  "status (\<lparr>status = 500, json_body = Inl (OtherException ''ContentTypeError''),
            text_body = Inr ''server error''\<rparr>) \<noteq> 200
   \<and> update_stats_task no_repr (failing_world 500 ''server error'') shroud_bot =
     ([HttpGet (PStr (api_url shroud_bot)),
       Log Error ''[SHROUD] API Failed: 500 - server error'' None], shroud_bot)
   \<and> update_stats_task no_repr (failing_world 429 ''slow down'') shroud_bot =
     ([HttpGet (PStr (api_url shroud_bot)),
       Log Warning ''[SHROUD] Rate Limit Hit (429). Waiting...'' None], shroud_bot)
   \<and> update_stats_task no_repr unreadable_world shroud_bot =
     ([HttpGet (PStr (api_url shroud_bot)),
       Log Error ''[SHROUD] Error in main loop: '' (Some (OtherException ''ClientPayloadError''))],
      shroud_bot)"
  using non_200_cycle [of "failing_world 500 ''server error''" _ no_repr shroud_bot]
        non_200_cycle [of "failing_world 429 ''slow down''" _ no_repr shroud_bot]
        non_200_cycle [of unreadable_world _ no_repr shroud_bot]
  by (simp add: failing_world_def unreadable_world_def log_tag_def shroud_bot_def new_bot_def
        str_int_500)

text \<open>
  C8 as it is written has, for every status other than 200 and 429, one error record
  that holds the status and the response body. With the status 500 and a body whose
  reading raises, line 108 leaves the block: the one record is the error of the main
  loop, and it holds neither.
\<close>

theorem non_200_unreadable_counterexample:
  "stats_get unreadable_world =
     Inr \<lparr>status = 500, json_body = Inl (OtherException ''ContentTypeError''),
          text_body = Inl (OtherException ''ClientPayloadError'')\<rparr>
   \<and> update_stats_task no_repr unreadable_world shroud_bot =
       ([HttpGet (PStr (api_url shroud_bot)),
         Log Error ''[SHROUD] Error in main loop: '' (Some (OtherException ''ClientPayloadError''))],
        shroud_bot)"
  by (simp add: update_stats_task_def stats_try_def unreadable_world_def shroud_bot_facts)

section \<open>A forbidden server in the nickname pass\<close>

text \<open>
  C9. When the edit in one joined server raises \<open>Forbidden\<close>, the pass records the
  attempt and a warning for that server and goes on: the servers after it are treated
  exactly as the loop treats them on their own. And whenever the display name differs
  from the last-known one and the cycle reaches the nickname step, the new name is the
  last-known name afterwards and the edits are those of all servers that need one,
  whatever the outcome of each edit is.
\<close>

theorem forbidden_guild_does_not_stop_pass:
  "(guilds w = gs1 @ g # gs2 \<and> me g = Some m \<and> \<not> py_eq (nick_value (nick m)) n
      \<and> edit_raises m = Some Forbidden
    \<longrightarrow> update_all_nicknames repr w b n =
          Log Info (log_tag b @ ''Updating nickname to '' @ [apostrophe] @ py_str repr n
                    @ [apostrophe] @ ''...'') None
          # nickname_loop b n gs1
          @ [EditNick (guild_name g) n,
             Log Warning (log_tag b @ ''Missing permissions to change nickname in guild: ''
                          @ guild_name g) None]
          @ nickname_loop b n gs2)
   \<and> (\<not> py_eq (player_name s) (last_known_name b)
        \<and> (last_known_score b = Some text \<or> presence_raises w = None)
      \<longrightarrow> (case apply_snapshot repr w b s text of
             (evs, b', x) \<Rightarrow>
               x = None \<and> last_known_name b' = player_name s
               \<and> filter is_nickname_edit evs =
                   map (\<lambda>g. EditNick (guild_name g) (player_name s))
                       (filter (needs_edit (player_name s)) (guilds w))))"
proof (intro conjI impI)
  assume a: "guilds w = gs1 @ g # gs2 \<and> me g = Some m \<and> \<not> py_eq (nick_value (nick m)) n
      \<and> edit_raises m = Some Forbidden"
  then have "nickname_in_guild b n g =
      [EditNick (guild_name g) n,
       Log Warning (log_tag b @ ''Missing permissions to change nickname in guild: ''
                    @ guild_name g) None]"
    by (simp add: nickname_in_guild_def)
  with a show "update_all_nicknames repr w b n =
          Log Info (log_tag b @ ''Updating nickname to '' @ [apostrophe] @ py_str repr n
                    @ [apostrophe] @ ''...'') None
          # nickname_loop b n gs1
          @ [EditNick (guild_name g) n,
             Log Warning (log_tag b @ ''Missing permissions to change nickname in guild: ''
                          @ guild_name g) None]
          @ nickname_loop b n gs2"
    by (simp add: update_all_nicknames_def nickname_loop_append)
next
  assume a: "\<not> py_eq (player_name s) (last_known_name b)
        \<and> (last_known_score b = Some text \<or> presence_raises w = None)"
  then have ok: "last_known_score b = Some text \<or> presence_raises w = None"
    by simp
  from a show "case apply_snapshot repr w b s text of
             (evs, b', x) \<Rightarrow>
               x = None \<and> last_known_name b' = player_name s
               \<and> filter is_nickname_edit evs =
                   map (\<lambda>g. EditNick (guild_name g) (player_name s))
                       (filter (needs_edit (player_name s)) (guilds w))"
    by (simp add: apply_snapshot_returns [OF ok] update_all_nicknames_filters
          update_avatar_filters is_nickname_edit_def)
qed

theorem forbidden_guild_does_not_stop_pass_witness:
  "guilds (calm_world [guild_forbidden, guild_free]) = [] @ guild_forbidden # [guild_free]
   \<and> me guild_forbidden = Some \<lparr>nick = None, edit_raises = Some Forbidden\<rparr>
   \<and> \<not> py_eq (nick_value (nick \<lparr>nick = None, edit_raises = Some Forbidden\<rparr>)) (PStr ''Shroud'')
   \<and> edit_raises \<lparr>nick = None, edit_raises = Some Forbidden\<rparr> = Some Forbidden
   \<and> update_all_nicknames no_repr (calm_world [guild_forbidden, guild_free]) shroud_bot
        (PStr ''Shroud'')
       = [Log Info (''[SHROUD] Updating nickname to '' @ [apostrophe] @ ''Shroud''
                    @ [apostrophe] @ ''...'') None,
          EditNick ''Beta'' (PStr ''Shroud''),
          Log Warning ''[SHROUD] Missing permissions to change nickname in guild: Beta'' None,
          EditNick ''Alpha'' (PStr ''Shroud'')]
   \<and> \<not> py_eq (player_name shroud_snapshot) (last_known_name shroud_bot)
   \<and> presence_raises (calm_world [guild_forbidden, guild_free]) = None
   \<and> (case apply_snapshot no_repr (calm_world [guild_forbidden, guild_free]) shroud_bot
              shroud_snapshot ''Master 1 - 15,000 RP'' of
         (evs, b', x) \<Rightarrow>
           x = None \<and> last_known_name b' = PStr ''Shroud''
           \<and> filter is_nickname_edit evs
               = [EditNick ''Beta'' (PStr ''Shroud''), EditNick ''Alpha'' (PStr ''Shroud'')])"
proof -
  have loop: "nickname_in_guild shroud_bot (PStr ''Shroud'') guild_free
                = [EditNick ''Alpha'' (PStr ''Shroud'')]"
    by (simp add: nickname_in_guild_def guild_free_def nick_value_def py_eq_def)
  show ?thesis
    using forbidden_guild_does_not_stop_pass
            [of "calm_world [guild_forbidden, guild_free]" "[]" guild_forbidden "[guild_free]"
                "\<lparr>nick = None, edit_raises = Some Forbidden\<rparr>" "PStr ''Shroud''" no_repr
                shroud_bot shroud_snapshot "''Master 1 - 15,000 RP''"]
    by (simp add: calm_world_facts shroud_bot_facts shroud_snapshot_facts needs_edit_examples
          guild_names loop nick_value_def py_eq_def)
      (simp add: guild_forbidden_def)
qed

section \<open>A presence update that raises\<close>

text \<open>
  C10. When the status text differs from the last-known one and \<^verbatim>\<open>change_presence\<close>
  raises, the rest of the cycle is abandoned: after the presence call the only event is
  the error record of the main loop, so no nickname and no avatar update is attempted,
  whatever the display name is, and the bot keeps both its last-known status text and
  its last-known display name.
\<close>

theorem presence_failure_abandons_cycle:
  assumes "stats_get w = Inr r" and "status r = 200" and "json_body r = Inr data"
    and "parse_data data = Inr s" and "status_text repr s = Inr text"
    and "last_known_score b \<noteq> Some text" and "presence_raises w = Some e"
  shows "update_stats_task repr w b =
           ([HttpGet (PStr (api_url b)), ChangePresence text,
             Log Error (log_tag b @ ''Error in main loop: '') (Some e)], b)"
  using assms
  by (simp add: update_stats_task_def stats_try_def apply_snapshot_def bind_exn_def)

theorem presence_failure_abandons_cycle_witness:
  "stats_get (presence_down_world [guild_free]) = Inr (ok_response shroud_doc)
   \<and> status (ok_response shroud_doc) = 200
   \<and> parse_data shroud_doc = Inr shroud_snapshot
   \<and> status_text no_repr shroud_snapshot = Inr ''Master 1 - 15,000 RP''
   \<and> last_known_score shroud_bot \<noteq> Some ''Master 1 - 15,000 RP''
   \<and> \<not> py_eq (player_name shroud_snapshot) (last_known_name shroud_bot)
   \<and> update_stats_task no_repr (presence_down_world [guild_free]) shroud_bot =
       ([HttpGet (PStr (api_url shroud_bot)), ChangePresence ''Master 1 - 15,000 RP'',
         Log Error ''[SHROUD] Error in main loop: '' (Some (OtherException ''gateway''))],
        shroud_bot)"
proof -
  have h1: "stats_get (presence_down_world [guild_free]) = Inr (ok_response shroud_doc)"
    by (simp add: presence_down_world_def calm_world_def)
  have h2: "status (ok_response shroud_doc) = 200"
    and h3: "json_body (ok_response shroud_doc) = Inr shroud_doc"
    by (simp_all add: ok_response_def)
  have h6: "last_known_score shroud_bot \<noteq> Some ''Master 1 - 15,000 RP''"
    by (simp add: shroud_bot_def new_bot_def)
  have h7: "presence_raises (presence_down_world [guild_free]) = Some (OtherException ''gateway'')"
    by (simp add: presence_down_world_def)
  have h8: "\<not> py_eq (player_name shroud_snapshot) (last_known_name shroud_bot)"
    by (simp add: shroud_snapshot_def shroud_bot_def new_bot_def py_eq_def)
  have tag: "log_tag shroud_bot = ''[SHROUD] ''"
    by (simp add: log_tag_def shroud_bot_def new_bot_def)
  show ?thesis
    using presence_failure_abandons_cycle [OF h1 h2 h3 parse_shroud_doc status_text_shroud h6 h7]
      h1 h2 h6 h8 parse_shroud_doc status_text_shroud
    by (simp add: tag)
qed

section \<open>Reading the snapshot\<close>

text \<open>
  C2, as the code has it. The extraction of lines 73 to 80 reads the paths
  \<open>global.name\<close>, \<open>global.rank.rankScore\<close>, \<open>global.rank.rankName\<close>,
  \<open>global.rank.rankDiv\<close> and \<open>global.rank.rankImg\<close>, with the defaults \<open>Unknown\<close>, 0,
  \<open>Rookie\<close>, 0 and \<^verbatim>\<open>None\<close> for an absent member, exactly when the document is an
  object whose member \<open>global\<close> is absent or an object and whose member \<open>global.rank\<close>
  is absent or an object. For every other document it raises \<open>AttributeError\<close>.
\<close>

theorem parse_data_by_paths:
  "parse_data data = (case snapshot_by_paths data of None \<Rightarrow> Inl AttributeError | Some s \<Rightarrow> Inr s)"
proof (cases data)
  case (PDict m)
  show ?thesis
  proof (cases "fmlookup m ''global''")
    case None
    then show ?thesis
      by (simp add: PDict parse_data_def snapshot_by_paths_def bind_exn_def object_at_def
            field_or_def)
  next
    case (Some g)
    show ?thesis
    proof (cases g)
      case (PDict gm)
      note g = this
      show ?thesis
      proof (cases "fmlookup gm ''rank''")
        case None
        then show ?thesis
          using Some g
          by (simp add: \<open>data = PDict m\<close> parse_data_def snapshot_by_paths_def bind_exn_def
                object_at_def field_or_def)
      next
        case (Some r)
        then show ?thesis
          using \<open>fmlookup m ''global'' = Some g\<close> g
          by (cases r)
            (simp_all add: \<open>data = PDict m\<close> parse_data_def snapshot_by_paths_def bind_exn_def
              object_at_def field_or_def)
      qed
    qed (use Some in \<open>simp_all add: \<open>data = PDict m\<close> parse_data_def snapshot_by_paths_def
          bind_exn_def object_at_def\<close>)
  qed
qed (simp_all add: parse_data_def snapshot_by_paths_def bind_exn_def)

theorem parse_data_by_paths_witness:
  "parse_data doc_no_rank =
     Inr \<lparr>player_name = PStr ''Nino'', rank_score = PInt 0, rank_name = PStr ''Rookie'',
          rank_div = PInt 0, rank_img_url = PNone\<rparr>
   \<and> parse_data (PDict fmempty) =
     Inr \<lparr>player_name = PStr ''Unknown'', rank_score = PInt 0, rank_name = PStr ''Rookie'',
          rank_div = PInt 0, rank_img_url = PNone\<rparr>
   \<and> parse_data (PList []) = Inl AttributeError"
  using parse_data_by_paths [of doc_no_rank] parse_data_by_paths [of "PDict fmempty"]
        parse_data_by_paths [of "PList []"]
  by (simp add: snapshot_by_paths_def object_at_def field_or_def doc_no_rank_def
        fmlookup_of_list)

text \<open>
  C2 as it is written makes the extraction total on every document. A document whose
  member \<open>global\<close> is \<^verbatim>\<open>null\<close> makes line 74 call \<^verbatim>\<open>get\<close> on \<^verbatim>\<open>None\<close>.
\<close>

theorem parse_data_counterexample:
  "parse_data doc_null_global = Inl AttributeError"
  by (simp add: parse_data_def doc_null_global_def bind_exn_def fmlookup_of_list)

section \<open>Facts about the configuration loader\<close>

text \<open>
  The player name of a token key: for a key made of the prefix and a name without
  underscore and without lower-case letter, line 172 yields that name.
\<close>

lemma str_replace_absent:
  assumes "x \<in> set old" and "x \<notin> set s"
  shows "str_replace s old new = s"
  using assms(2)
proof (induction s)
  case Nil
  with assms(1) show ?case by auto
next
  case (Cons c cs)
  from assms(1) have ne: "old \<noteq> []"
    by auto
  have "\<not> startswith (c # cs) old"
  proof
    assume "startswith (c # cs) old"
    then have "set old \<subseteq> set (c # cs)"
      unfolding startswith_def by (metis set_take_subset)
    with assms(1) Cons.prems show False
      by auto
  qed
  with ne Cons show ?case
    by simp
qed

lemma str_replace_prefix:
  assumes "old \<noteq> []"
  shows "str_replace (old @ s) old new = new @ str_replace s old new"
proof -
  obtain c cs where o: "old @ s = c # cs"
    using assms by (cases "old @ s") auto
  have "startswith (old @ s) old"
    by (simp add: startswith_def)
  then show ?thesis
    using assms o by (metis append_eq_conv_conj str_replace.simps(2))
qed

lemma upper_plain:
  assumes "\<forall>c \<in> set s. c \<notin> set ''abcdefghijklmnopqrstuvwxyz''"
  shows "upper s = s"
  using assms
proof (induction s)
  case Nil
  show ?case by (simp add: upper_def)
next
  case (Cons c cs)
  then have "upper_char c = c"
    by (auto simp add: upper_char_def)
  with Cons show ?case
    by (simp add: upper_def)
qed

lemma player_name_of_plain:
  assumes "CHR ''_'' \<notin> set n" and "\<forall>c \<in> set n. c \<notin> set ''abcdefghijklmnopqrstuvwxyz''"
  shows "player_name_of (''DISCORD_BOT_TOKEN_'' @ n) = n"
proof -
  have "str_replace (''DISCORD_BOT_TOKEN_'' @ n) ''DISCORD_BOT_TOKEN_'' [] =
          str_replace n ''DISCORD_BOT_TOKEN_'' []"
    using str_replace_prefix [of "''DISCORD_BOT_TOKEN_''" n "[]"] by simp
  also have "\<dots> = n"
    by (rule str_replace_absent [of "CHR ''_''"]) (use assms(1) in simp_all)
  finally show ?thesis
    by (simp add: player_name_of_def upper_plain [OF assms(2)])
qed

lemma py_int_Inl: "py_int s = Inl e \<Longrightarrow> e = InvalidLiteral s"
  by (auto simp add: py_int_def Let_def split: option.splits list.splits if_splits)

lemma py_int_zero: "py_int ''0'' = Inr 0"
  by (simp add: py_int_def strip_def is_space_def parse_digits_def digit_val_def
      count_digits_def int_max_str_digits_def)

lemma py_int_separator: "py_int (CHR 0x1C # ''30'') = Inl (InvalidLiteral (CHR 0x1C # ''30''))"
  by (simp add: py_int_def strip_def is_space_def parse_digits_def digit_val_def
      count_digits_def int_max_str_digits_def)

lemma py_int_digit_limit:
  "py_int (replicate 4301 (CHR ''1'')) = Inl (InvalidLiteral (replicate 4301 (CHR ''1'')))"
proof -
  have s: "strip (replicate 4301 (CHR ''1'')) = replicate 4301 (CHR ''1'')"
    by (simp add: strip_def dropWhile_replicate is_space_def)
  have c: "count_digits (replicate 4301 (CHR ''1'')) = 4301"
    by (simp add: count_digits_def)
  have r: "replicate 4301 (CHR ''1'') = CHR ''1'' # replicate 4300 (CHR ''1'')"
    by (simp add: numeral_eq_Suc)
  have "parse_digits (replicate 4301 (CHR ''1'')) = None"
    unfolding parse_digits_def c by (simp add: r int_max_str_digits_def)
  then show ?thesis
    unfolding py_int_def s Let_def by (simp add: r)
qed

lemma expected_delay_parsed:
  "py_int (delay_text env pname) = Inr d \<Longrightarrow> expected_delay env pname = d"
  by (auto simp add: delay_text_def expected_delay_def py_int_zero split: option.splits)

lemma configs_loop_parsing:
  assumes "\<forall>kv \<in> set ts. complete_entry env kv \<longrightarrow> delay_parses env kv"
  shows "configs_loop env ts logs cfgs =
           (logs @ map (entry_log env) ts,
            Inr (cfgs @ map (expected_config env) (filter (complete_entry env) ts)))"
  using assms
proof (induction ts arbitrary: logs cfgs)
  case Nil
  then show ?case by simp
next
  case (Cons kv ts)
  obtain k v where kv: "kv = (k, v)" by (cases kv)
  from Cons.prems have rest: "\<forall>kv \<in> set ts. complete_entry env kv \<longrightarrow> delay_parses env kv"
    by simp
  show ?case
  proof (cases "truthy_uid env (player_name_of k)")
    case None
    then show ?thesis
      using Cons.IH [OF rest]
      by (simp add: kv complete_entry_def entry_log_def Let_def)
  next
    case (Some uid)
    then have "delay_parses env kv"
      using Cons.prems by (simp add: kv complete_entry_def)
    then obtain d where d: "py_int (delay_text env (player_name_of k)) = Inr d"
      by (auto simp add: delay_parses_def kv split: sum.splits)
    show ?thesis
      using Cons.IH [OF rest] Some d expected_delay_parsed [OF d]
      by (simp add: kv complete_entry_def entry_log_def expected_config_def Let_def)
  qed
qed

lemma configs_loop_raises:
  assumes "\<forall>kv \<in> set ts1. complete_entry env kv \<longrightarrow> delay_parses env kv"
    and "complete_entry env kv" and "py_int (delay_text env (player_name_of (fst kv))) = Inl e"
  shows "configs_loop env (ts1 @ kv # ts2) logs cfgs = (logs @ map (entry_log env) ts1, Inl e)"
  using assms(1)
proof (induction ts1 arbitrary: logs cfgs)
  case Nil
  obtain k v where kv: "kv = (k, v)" by (cases kv)
  show ?case
    using assms(2,3) by (auto simp add: kv complete_entry_def Let_def)
next
  case (Cons x ts1)
  obtain k v where x: "x = (k, v)" by (cases x)
  from Cons.prems have rest: "\<forall>kv \<in> set ts1. complete_entry env kv \<longrightarrow> delay_parses env kv"
    by simp
  show ?case
  proof (cases "truthy_uid env (player_name_of k)")
    case None
    then show ?thesis
      using Cons.IH [OF rest]
      by (simp add: x complete_entry_def entry_log_def Let_def)
  next
    case (Some uid)
    then have "delay_parses env x"
      using Cons.prems by (simp add: x complete_entry_def)
    then obtain d where d: "py_int (delay_text env (player_name_of k)) = Inr d"
      by (auto simp add: delay_parses_def x split: sum.splits)
    show ?thesis
      using Cons.IH [OF rest] Some d expected_delay_parsed [OF d]
      by (simp add: x complete_entry_def entry_log_def expected_config_def Let_def)
  qed
qed

lemma warnings_of_entry_logs:
  "filter is_warning (map (entry_log env) ts) =
     map (entry_log env) (filter (\<lambda>kv. \<not> complete_entry env kv) ts)"
  by (induction ts) (simp_all add: entry_log_def is_warning_def Let_def)

lemma network_free_entry_logs:
  "filter network_event (map (entry_log env) ts) = []"
  by (induction ts) (simp_all add: entry_log_def network_event_def Let_def)

lemma player_name_daan: "player_name_of ''DISCORD_BOT_TOKEN_DAAN'' = ''DAAN''"
  by (simp add: player_name_of_def startswith_def upper_def upper_char_def)

lemma env_bad_delay_run:
  "parse_player_configs env_bad_delay = ([], Inl (InvalidLiteral ''abc''))"
  by (simp add: parse_player_configs_def env_bad_delay_def player_tokens_def is_player_token_def
      startswith_def player_name_daan truthy_uid_def uid_key_of_def delay_text_def delay_key_of_def
      py_int_def strip_def is_space_def parse_digits_def digit_val_def
      count_digits_def int_max_str_digits_def)

lemma parse_player_configs_parsing:
  assumes "\<forall>kv \<in> set (well_formed_tokens env). delay_parses env kv"
  shows "parse_player_configs env =
           (if well_formed_tokens env = [] then
              (map (entry_log env) (player_tokens env) @ [no_configs_fatal],
               Inl (ValueError ''No player configurations found''))
            else
              (map (entry_log env) (player_tokens env),
               Inr (map (expected_config env) (well_formed_tokens env))))"
proof -
  have "\<forall>kv \<in> set (player_tokens env). complete_entry env kv \<longrightarrow> delay_parses env kv"
    using assms by (auto simp add: well_formed_tokens_def)
  then have loop: "configs_loop env (player_tokens env) [] [] =
      (map (entry_log env) (player_tokens env),
       Inr (map (expected_config env) (well_formed_tokens env)))"
    by (simp add: configs_loop_parsing well_formed_tokens_def)
  show ?thesis
    unfolding parse_player_configs_def loop
    by (simp add: no_configs_fatal_def)
qed

lemma parse_player_configs_raises:
  assumes "\<not> (\<forall>kv \<in> set (well_formed_tokens env). delay_parses env kv)"
  shows "\<exists>kv \<in> set (well_formed_tokens env).
           \<not> delay_parses env kv
           \<and> snd (parse_player_configs env)
               = Inl (InvalidLiteral (delay_text env (player_name_of (fst kv))))"
proof -
  from assms have "\<exists>kv \<in> set (player_tokens env). complete_entry env kv \<and> \<not> delay_parses env kv"
    by (auto simp add: well_formed_tokens_def)
  from split_list_first_prop [OF this]
  obtain ts1 kv ts2 where split: "player_tokens env = ts1 @ kv # ts2"
    and bad: "complete_entry env kv \<and> \<not> delay_parses env kv"
    and good: "\<forall>x \<in> set ts1. \<not> (complete_entry env x \<and> \<not> delay_parses env x)"
    by blast
  from bad obtain e where e: "py_int (delay_text env (player_name_of (fst kv))) = Inl e"
    by (auto simp add: delay_parses_def split: sum.splits)
  from good have good': "\<forall>x \<in> set ts1. complete_entry env x \<longrightarrow> delay_parses env x"
    by blast
  from bad have c: "complete_entry env kv"
    by simp
  have "configs_loop env (player_tokens env) [] [] = (map (entry_log env) ts1, Inl e)"
    unfolding split using configs_loop_raises [OF good' c e, of ts2 "[]" "[]"] by simp
  then have r: "snd (parse_player_configs env) = Inl e"
    by (simp add: parse_player_configs_def)
  have m: "kv \<in> set (well_formed_tokens env)"
    using c split by (simp add: well_formed_tokens_def)
  have "e = InvalidLiteral (delay_text env (player_name_of (fst kv)))"
    by (rule py_int_Inl [OF e])
  with r m bad show ?thesis
    by blast
qed

lemma player_names:
  "player_name_of ''DISCORD_BOT_TOKEN_NINO'' = ''NINO''"
  "player_name_of ''DISCORD_BOT_TOKEN_SHROUD'' = ''SHROUD''"
  by (simp_all add: player_name_of_def startswith_def upper_def upper_char_def)

lemma py_int_examples:
  "py_int ''30'' = Inr 30"
  "py_int ''abc'' = Inl (InvalidLiteral ''abc'')"
  "py_int ''30s'' = Inl (InvalidLiteral ''30s'')"
  by (simp_all add: py_int_def strip_def is_space_def parse_digits_def digit_val_def
      count_digits_def int_max_str_digits_def)

lemma two_players_tokens:
  "player_tokens env_two_players =
     [(''DISCORD_BOT_TOKEN_DAAN'', ''tok1''), (''DISCORD_BOT_TOKEN_NINO'', ''tok2''),
      (''DISCORD_BOT_TOKEN_SHROUD'', ''tok3'')]"
  by (simp add: player_tokens_def env_two_players_def is_player_token_def startswith_def)

lemma two_players_uids:
  "truthy_uid env_two_players ''DAAN'' = Some ''1001''"
  "truthy_uid env_two_players ''NINO'' = None"
  "truthy_uid env_two_players ''SHROUD'' = Some ''42''"
  by (simp_all add: truthy_uid_def uid_key_of_def env_two_players_def)

lemma two_players_delays:
  "delay_text env_two_players ''DAAN'' = ''30''"
  "delay_text env_two_players ''SHROUD'' = ''0''"
  by (simp_all add: delay_text_def delay_key_of_def env_two_players_def)

lemma two_players_well_formed:
  "well_formed_tokens env_two_players =
     [(''DISCORD_BOT_TOKEN_DAAN'', ''tok1''), (''DISCORD_BOT_TOKEN_SHROUD'', ''tok3'')]"
  by (simp add: well_formed_tokens_def two_players_tokens complete_entry_def player_name_daan
        player_names two_players_uids)

lemma two_players_incomplete:
  "incomplete_tokens env_two_players = [(''DISCORD_BOT_TOKEN_NINO'', ''tok2'')]"
  by (simp add: incomplete_tokens_def two_players_tokens complete_entry_def player_name_daan
        player_names two_players_uids)

lemma two_players_parse:
  "\<forall>kv \<in> set (well_formed_tokens env_two_players). delay_parses env_two_players kv"
  by (simp add: two_players_well_formed delay_parses_def player_name_daan player_names
        two_players_delays py_int_examples py_int_zero)

section \<open>How many records the loader returns\<close>

text \<open>
  C3, as the code has it. A token entry (a key with the bot-token prefix, the aggregate
  key apart) is complete when the identifier key for its player name has a non-empty
  value, and incomplete otherwise. In every environment in which the startup delay of
  each complete entry is absent or parses as an integer, the loader logs exactly one
  skip-warning per incomplete entry; and it returns exactly one record per complete
  entry, in their order, when there is at least one, and raises the configuration error
  when there is none.
\<close>

theorem loader_counts:
  assumes "\<forall>kv \<in> set (well_formed_tokens env). delay_parses env kv"
  shows "length (filter is_warning (fst (parse_player_configs env)))
           = length (incomplete_tokens env)
         \<and> (case snd (parse_player_configs env) of
               Inr configs \<Rightarrow>
                 well_formed_tokens env \<noteq> []
                 \<and> length configs = length (well_formed_tokens env)
                 \<and> configs = map (expected_config env) (well_formed_tokens env)
             | Inl e \<Rightarrow>
                 well_formed_tokens env = []
                 \<and> e = ValueError ''No player configurations found'')"
  by (simp add: parse_player_configs_parsing [OF assms] warnings_of_entry_logs
        incomplete_tokens_def no_configs_fatal_def is_warning_def)

theorem loader_counts_witness:
  "well_formed_tokens env_two_players =
     [(''DISCORD_BOT_TOKEN_DAAN'', ''tok1''), (''DISCORD_BOT_TOKEN_SHROUD'', ''tok3'')]
   \<and> delay_parses env_two_players (''DISCORD_BOT_TOKEN_DAAN'', ''tok1'')
   \<and> delay_parses env_two_players (''DISCORD_BOT_TOKEN_SHROUD'', ''tok3'')
   \<and> incomplete_tokens env_two_players = [(''DISCORD_BOT_TOKEN_NINO'', ''tok2'')]
   \<and> length (filter is_warning (fst (parse_player_configs env_two_players))) = 1
   \<and> snd (parse_player_configs env_two_players) =
       Inr [\<lparr>name = ''DAAN'', discord_token = ''tok1'', player_uid = ''1001'', startup_delay = 30\<rparr>,
            \<lparr>name = ''SHROUD'', discord_token = ''tok3'', player_uid = ''42'', startup_delay = 0\<rparr>]"
proof -
  have e: "expected_delay env_two_players ''DAAN'' = 30"
    "expected_delay env_two_players ''SHROUD'' = 0"
    by (simp_all add: expected_delay_parsed two_players_delays py_int_examples py_int_zero)
  have d: "delay_parses env_two_players (''DISCORD_BOT_TOKEN_DAAN'', ''tok1'')"
    "delay_parses env_two_players (''DISCORD_BOT_TOKEN_SHROUD'', ''tok3'')"
    using two_players_parse by (simp_all add: two_players_well_formed)
  show ?thesis
    using loader_counts [OF two_players_parse] d
    by (simp add: two_players_well_formed two_players_incomplete expected_config_def
          player_name_daan player_names two_players_uids e split: sum.splits)
qed

text \<open>
  C3 as it is written holds in every environment. With one complete entry whose startup
  delay is \<open>abc\<close> and no incomplete entry, the loader returns no record: \<^verbatim>\<open>int\<close>
  raises.
\<close>

theorem loader_counts_counterexample:
  "length (well_formed_tokens env_bad_delay) = 1
   \<and> length (incomplete_tokens env_bad_delay) = 0
   \<and> parse_player_configs env_bad_delay = ([], Inl (InvalidLiteral ''abc''))"
  by (simp add: env_bad_delay_run)
    (simp add: well_formed_tokens_def incomplete_tokens_def player_tokens_def
      env_bad_delay_def is_player_token_def startswith_def complete_entry_def player_name_daan
      truthy_uid_def uid_key_of_def)

section \<open>The startup delay\<close>

text \<open>
  C4, as the code has it. When the startup delay of every complete entry is absent or
  parses as an integer (and there is a complete entry), the loader returns, and in each
  record the delay is 0 when the delay key of its name is absent and the integer that
  \<^verbatim>\<open>int\<close> reads from its value when the key is present. When the delay of some
  complete entry does not parse, the loader raises the \<open>ValueError\<close> of \<^verbatim>\<open>int\<close> for such
  a value: there is no fallback to 0.
\<close>

theorem startup_delay_parsing:
  "((\<forall>kv \<in> set (well_formed_tokens env). delay_parses env kv) \<and> well_formed_tokens env \<noteq> []
      \<longrightarrow> (\<exists>configs. snd (parse_player_configs env) = Inr configs
             \<and> (\<forall>c \<in> set configs.
                    (map_of env (delay_key_of (name c)) = None \<longrightarrow> startup_delay c = 0)
                    \<and> (\<forall>v. map_of env (delay_key_of (name c)) = Some v
                             \<longrightarrow> py_int v = Inr (startup_delay c)))))
   \<and> (\<not> (\<forall>kv \<in> set (well_formed_tokens env). delay_parses env kv)
      \<longrightarrow> (\<exists>kv \<in> set (well_formed_tokens env).
             \<not> delay_parses env kv
             \<and> snd (parse_player_configs env)
                 = Inl (InvalidLiteral (delay_text env (player_name_of (fst kv))))))"
proof (intro conjI impI)
  assume a: "(\<forall>kv \<in> set (well_formed_tokens env). delay_parses env kv)
             \<and> well_formed_tokens env \<noteq> []"
  then have all: "\<forall>kv \<in> set (well_formed_tokens env). delay_parses env kv"
    by simp
  have delays: "(map_of env (delay_key_of (name (expected_config env kv))) = None
                   \<longrightarrow> startup_delay (expected_config env kv) = 0)
                \<and> (\<forall>v. map_of env (delay_key_of (name (expected_config env kv))) = Some v
                         \<longrightarrow> py_int v = Inr (startup_delay (expected_config env kv)))"
    if "kv \<in> set (well_formed_tokens env)" for kv
  proof -
    from that all have "delay_parses env kv"
      by blast
    then show ?thesis
      by (auto simp add: delay_parses_def expected_config_def expected_delay_def delay_text_def
            split: sum.splits option.splits)
  qed
  show "\<exists>configs. snd (parse_player_configs env) = Inr configs
             \<and> (\<forall>c \<in> set configs.
                    (map_of env (delay_key_of (name c)) = None \<longrightarrow> startup_delay c = 0)
                    \<and> (\<forall>v. map_of env (delay_key_of (name c)) = Some v
                             \<longrightarrow> py_int v = Inr (startup_delay c)))"
    using a delays by (simp add: parse_player_configs_parsing [OF all])
next
  assume "\<not> (\<forall>kv \<in> set (well_formed_tokens env). delay_parses env kv)"
  then show "\<exists>kv \<in> set (well_formed_tokens env).
             \<not> delay_parses env kv
             \<and> snd (parse_player_configs env)
                 = Inl (InvalidLiteral (delay_text env (player_name_of (fst kv))))"
    by (rule parse_player_configs_raises)
qed

theorem startup_delay_parsing_witness:
  "well_formed_tokens env_two_players =
     [(''DISCORD_BOT_TOKEN_DAAN'', ''tok1''), (''DISCORD_BOT_TOKEN_SHROUD'', ''tok3'')]
   \<and> delay_parses env_two_players (''DISCORD_BOT_TOKEN_DAAN'', ''tok1'')
   \<and> delay_parses env_two_players (''DISCORD_BOT_TOKEN_SHROUD'', ''tok3'')
   \<and> map_of env_two_players (delay_key_of ''DAAN'') = Some ''30''
   \<and> map_of env_two_players (delay_key_of ''SHROUD'') = None
   \<and> map (\<lambda>c. (name c, startup_delay c)) (projr (snd (parse_player_configs env_two_players)))
       = [(''DAAN'', 30), (''SHROUD'', 0)]
   \<and> well_formed_tokens env_bad_delay = [(''DISCORD_BOT_TOKEN_DAAN'', ''tok1'')]
   \<and> \<not> delay_parses env_bad_delay (''DISCORD_BOT_TOKEN_DAAN'', ''tok1'')
   \<and> snd (parse_player_configs env_bad_delay) = Inl (InvalidLiteral ''abc'')"
proof -
  have wf: "well_formed_tokens env_two_players \<noteq> []"
    by (simp add: two_players_well_formed)
  have keys: "map_of env_two_players (delay_key_of ''DAAN'') = Some ''30''"
    "map_of env_two_players (delay_key_of ''SHROUD'') = None"
    by (simp_all add: delay_key_of_def env_two_players_def)
  have bad_wf: "well_formed_tokens env_bad_delay = [(''DISCORD_BOT_TOKEN_DAAN'', ''tok1'')]"
    by (simp add: well_formed_tokens_def player_tokens_def env_bad_delay_def is_player_token_def
        startswith_def complete_entry_def player_name_daan truthy_uid_def uid_key_of_def)
  have bad_text: "delay_text env_bad_delay ''DAAN'' = ''abc''"
    by (simp add: delay_text_def delay_key_of_def env_bad_delay_def)
  have bad: "\<not> delay_parses env_bad_delay (''DISCORD_BOT_TOKEN_DAAN'', ''tok1'')"
    by (simp add: delay_parses_def player_name_daan bad_text py_int_examples)
  from startup_delay_parsing [of env_two_players] two_players_parse wf
  obtain configs where c: "snd (parse_player_configs env_two_players) = Inr configs"
    and ds: "\<forall>c \<in> set configs.
               (map_of env_two_players (delay_key_of (name c)) = None \<longrightarrow> startup_delay c = 0)
               \<and> (\<forall>v. map_of env_two_players (delay_key_of (name c)) = Some v
                        \<longrightarrow> py_int v = Inr (startup_delay c))"
    by blast
  have names: "map name configs = [''DAAN'', ''SHROUD'']"
    using c
    by (auto simp add: parse_player_configs_parsing [OF two_players_parse]
          two_players_well_formed expected_config_def player_name_daan player_names)
  then obtain c1 c2 where cs: "configs = [c1, c2]" and n: "name c1 = ''DAAN''" "name c2 = ''SHROUD''"
    by (auto simp add: map_eq_Cons_conv)
  from ds cs n keys have "startup_delay c1 = 30" and "startup_delay c2 = 0"
    by (simp_all add: py_int_examples)
  then have good: "map (\<lambda>c. (name c, startup_delay c))
                     (projr (snd (parse_player_configs env_two_players)))
                   = [(''DAAN'', 30), (''SHROUD'', 0)]"
    by (simp add: c cs n)
  from startup_delay_parsing [of env_bad_delay] bad
  have "snd (parse_player_configs env_bad_delay) = Inl (InvalidLiteral ''abc'')"
    by (simp add: bad_wf player_name_daan bad_text)
  with good keys bad bad_wf two_players_parse show ?thesis
    by (simp add: two_players_well_formed)
qed

text \<open>
  C4 as it is written lets the loader complete with a delay of 0 when the value is not
  an integer. With the delay \<open>30s\<close> the loader raises and returns no record.
\<close>

theorem startup_delay_counterexample:
  "map_of env_delay_seconds (delay_key_of ''NINO'') = Some ''30s''
   \<and> well_formed_tokens env_delay_seconds = [(''DISCORD_BOT_TOKEN_NINO'', ''tok2'')]
   \<and> parse_player_configs env_delay_seconds = ([], Inl (InvalidLiteral ''30s''))"
  by (simp add: parse_player_configs_def well_formed_tokens_def player_tokens_def
      env_delay_seconds_def is_player_token_def startswith_def complete_entry_def player_names
      truthy_uid_def uid_key_of_def delay_text_def delay_key_of_def py_int_examples)

section \<open>No complete record\<close>

text \<open>
  C5. When the environment has no complete entry, the loader logs one warning per
  incomplete entry and the fatal record, and raises the configuration error: it returns
  no record. \<^verbatim>\<open>main\<close> ends with that exception before the shared session is created
  and before any bot is started, so that nothing but log records has happened.
\<close>

theorem no_well_formed_record_is_fatal:
  assumes "well_formed_tokens env = []"
  shows "parse_player_configs env =
           (map (entry_log env) (incomplete_tokens env) @ [no_configs_fatal],
            Inl (ValueError ''No player configurations found''))
         \<and> main_startup env = parse_player_configs env
         \<and> filter network_event (fst (main_startup env)) = []"
proof -
  have all: "\<forall>kv \<in> set (well_formed_tokens env). delay_parses env kv"
    using assms by simp
  have "filter (complete_entry env) (player_tokens env) = []"
    using assms by (simp add: well_formed_tokens_def)
  then have "\<forall>kv \<in> set (player_tokens env). \<not> complete_entry env kv"
    by (simp add: filter_empty_conv)
  then have inc: "incomplete_tokens env = player_tokens env"
    by (simp add: incomplete_tokens_def)
  show ?thesis
    using assms
    by (simp add: parse_player_configs_parsing [OF all] inc main_startup_def
          network_free_entry_logs no_configs_fatal_def network_event_def)
qed

theorem no_well_formed_record_is_fatal_witness:
  "well_formed_tokens env_no_uid = []
   \<and> parse_player_configs env_no_uid =
       ([Log Warning ''Missing PLAYER_UID_DAAN for player DAAN, skipping...'' None,
         no_configs_fatal],
        Inl (ValueError ''No player configurations found''))
   \<and> main_startup env_no_uid = parse_player_configs env_no_uid
   \<and> filter network_event (fst (main_startup env_no_uid)) = []"
proof -
  have tokens: "player_tokens env_no_uid = [(''DISCORD_BOT_TOKEN_DAAN'', ''tok1'')]"
    by (simp add: player_tokens_def env_no_uid_def is_player_token_def startswith_def)
  have uid: "truthy_uid env_no_uid ''DAAN'' = None"
    by (simp add: truthy_uid_def uid_key_of_def env_no_uid_def)
  have wf: "well_formed_tokens env_no_uid = []"
    by (simp add: well_formed_tokens_def tokens complete_entry_def player_name_daan uid)
  have inc: "incomplete_tokens env_no_uid = [(''DISCORD_BOT_TOKEN_DAAN'', ''tok1'')]"
    by (simp add: incomplete_tokens_def tokens complete_entry_def player_name_daan uid)
  show ?thesis
    using no_well_formed_record_is_fatal [OF wf] wf
    by (simp add: inc entry_log_def complete_entry_def player_name_daan uid uid_key_of_def
          network_event_def no_configs_fatal_def)
qed

end
